theory Spec2Isabelle
  imports Main
begin

section \<open>Solidity values, checked arithmetic and reverts\<close>

text \<open>
  The contracts are compiled with Solidity 0.8.20: every \<open>uint256\<close> operation is checked and
  a failed check reverts the whole transaction. A \<open>uint256\<close> is modelled as a natural number
  with the bound written out at every operation; an \<open>address\<close> and a \<open>bytes32\<close> identifier
  are opaque natural numbers (\<open>address(0)\<close> is \<open>0\<close>).

  A call that reverts leaves no trace in storage, so every state-changing function returns
  \<open>error + state\<close>: \<open>Inl\<close> is the revert (the state before the call stands), \<open>Inr\<close> the
  state after a successful call. The time of the block (\<open>block.timestamp\<close>) and the caller
  (\<open>msg.sender\<close>) are explicit arguments. An internal function \<open>_f\<close> of the source is named
  \<open>internal_f\<close>.
\<close>

type_synonym address = nat
type_synonym bytes32 = nat

datatype error =
    Revert string            \<comment> \<open>\<open>require(..., msg)\<close> or \<open>revert(msg)\<close>\<close>
  | Panic_arithmetic         \<comment> \<open>overflow or underflow of checked arithmetic\<close>
  | Panic_division           \<comment> \<open>division by zero\<close>
  | Panic_index              \<comment> \<open>array index out of bounds\<close>
  | Panic_pop                \<comment> \<open>\<open>pop()\<close> on an empty array\<close>
  | Unauthorized             \<comment> \<open>\<open>onlyRole\<close> of AccessControl refused the caller\<close>
  | ERC20_revert             \<comment> \<open>the token contract refused a transfer\<close>
  | External_call_reverted   \<comment> \<open>a call to another contract reverted\<close>
  | EnforcedPause            \<comment> \<open>\<open>whenNotPaused\<close> of Pausable, while paused\<close>
  | ExpectedPause            \<comment> \<open>\<open>whenPaused\<close> of Pausable, while not paused\<close>

definition MAX_UINT256 :: nat where
  "MAX_UINT256 = 2 ^ 256 - 1"

definition checked_add :: "nat \<Rightarrow> nat \<Rightarrow> error + nat" where
  "checked_add a b = (if a + b \<le> MAX_UINT256 then Inr (a + b) else Inl Panic_arithmetic)"

definition checked_sub :: "nat \<Rightarrow> nat \<Rightarrow> error + nat" where
  "checked_sub a b = (if b \<le> a then Inr (a - b) else Inl Panic_arithmetic)"

definition checked_mul :: "nat \<Rightarrow> nat \<Rightarrow> error + nat" where
  "checked_mul a b = (if a * b \<le> MAX_UINT256 then Inr (a * b) else Inl Panic_arithmetic)"

definition checked_div :: "nat \<Rightarrow> nat \<Rightarrow> error + nat" where
  "checked_div a b = (if b = 0 then Inl Panic_division else Inr (a div b))"

definition bindE :: "error + 'a \<Rightarrow> ('a \<Rightarrow> error + 'b) \<Rightarrow> error + 'b" where
  "bindE m f = (case m of Inl e \<Rightarrow> Inl e | Inr x \<Rightarrow> f x)"

section \<open>OracleAggregator\<close>

text \<open>
  The structs \<open>PriceData\<close>, \<open>OracleSource\<close>, \<open>CurrencyPair\<close> and \<open>RateResponse\<close> and the
  contract's storage. Field names shared by several structs carry the struct's name as a
  prefix (\<open>isActive\<close> is \<open>price_isActive\<close>, \<open>source_isActive\<close>, \<open>pair_isActive\<close>).
\<close>

record PriceData =
  rate :: nat
  timestamp :: nat
  confidence :: nat
  price_isActive :: bool

record OracleSource =
  source_oracle :: address
  name :: string
  weight :: nat
  source_isActive :: bool
  source_lastUpdate :: nat
  totalUpdates :: nat

record CurrencyPair =
  base :: string
  quote :: string
  pairId :: bytes32
  pair_isActive :: bool
  currentRate :: nat
  lastUpdate :: nat
  rateHistory :: "nat list"
  timestamps :: "nat list"
  twapPeriod :: nat
  maxDeviation :: nat
  circuitBreakerTripped :: bool

record RateResponse =
  spotRate :: nat
  twapRate :: nat
  response_confidence :: nat
  response_timestamp :: nat
  isStale :: bool
  circuitBreakerActive :: bool

text \<open>
  The roles of AccessControl that the modelled functions check. Granting and revoking roles
  is OpenZeppelin's code, outside the repository: each contract's role table is a field of
  its state that the modelled functions read and never write.
\<close>

datatype role =
    DEFAULT_ADMIN_ROLE | ORACLE_ADMIN | PRICE_UPDATER
  | OPERATOR_ROLE | COMPLIANCE_ROLE | TREASURY_ROLE | ARBITER_ROLE

datatype oracle_event =
    PriceUpdated bytes32 address nat nat
  | PairAdded bytes32 string string
  | OracleAdded address string nat
  | CircuitBreakerTripped bytes32 nat nat nat
  | CircuitBreakerReset bytes32

record OracleAggregator =
  oracle_hasRole :: "role \<Rightarrow> address \<Rightarrow> bool"
  pairs :: "bytes32 \<Rightarrow> CurrencyPair"
  oraclePrices :: "bytes32 \<Rightarrow> address \<Rightarrow> PriceData"
  oracleSources :: "address \<Rightarrow> OracleSource"
  activePairs :: "bytes32 list"
  activeOracles :: "address list"
  stalenessThreshold :: nat
  defaultTwapPeriod :: nat
  defaultMaxDeviation :: nat
  minOracleCount :: nat
  totalPriceUpdates :: nat
  totalQueries :: nat
  circuitBreakerTriggers :: nat
  oracle_events :: "oracle_event list"

subsection \<open>Aggregation\<close>

text \<open>
  The loop of \<open>_calculateAggregatedRate\<close> over \<open>activeOracles\<close>, with its three accumulators
  \<open>(weightedSum, totalWeight, validOracles)\<close>. Each \<open>continue\<close> of the source is a recursive
  call with the accumulators unchanged.
\<close>

fun aggregate_loop ::
  "OracleAggregator \<Rightarrow> nat \<Rightarrow> bytes32 \<Rightarrow> address list \<Rightarrow> nat \<times> nat \<times> nat \<Rightarrow> error + (nat \<times> nat \<times> nat)"
where
  "aggregate_loop s now pid [] acc = Inr acc"
| "aggregate_loop s now pid (a # rest) (weightedSum, totalWeight, validOracles) =
     (if \<not> source_isActive (oracleSources s a) then
        aggregate_loop s now pid rest (weightedSum, totalWeight, validOracles)
      else if \<not> price_isActive (oraclePrices s pid a) then
        aggregate_loop s now pid rest (weightedSum, totalWeight, validOracles)
      else
        (case checked_sub now (timestamp (oraclePrices s pid a)) of
           Inl e \<Rightarrow> Inl e
         | Inr age \<Rightarrow>
            if age > stalenessThreshold s then
              aggregate_loop s now pid rest (weightedSum, totalWeight, validOracles)
            else
              (case checked_mul (rate (oraclePrices s pid a)) (weight (oracleSources s a)) of
                 Inl e \<Rightarrow> Inl e
               | Inr product \<Rightarrow>
                  (case checked_add weightedSum product of
                     Inl e \<Rightarrow> Inl e
                   | Inr weightedSum' \<Rightarrow>
                      (case checked_add totalWeight (weight (oracleSources s a)) of
                         Inl e \<Rightarrow> Inl e
                       | Inr totalWeight' \<Rightarrow>
                          (case checked_add validOracles 1 of
                             Inl e \<Rightarrow> Inl e
                           | Inr validOracles' \<Rightarrow>
                              aggregate_loop s now pid rest
                                (weightedSum', totalWeight', validOracles')))))))"

definition internal_calculateAggregatedRate ::
  "OracleAggregator \<Rightarrow> nat \<Rightarrow> bytes32 \<Rightarrow> error + nat"
where
  "internal_calculateAggregatedRate s now pid =
     bindE (aggregate_loop s now pid (activeOracles s) (0, 0, 0))
       (\<lambda>(weightedSum, totalWeight, validOracles).
          if totalWeight = 0 \<or> validOracles < minOracleCount s
          then Inr (currentRate (pairs s pid))
          else checked_div weightedSum totalWeight)"

definition internal_calculateDeviation :: "nat \<Rightarrow> nat \<Rightarrow> error + nat" where
  "internal_calculateDeviation oldRate newRate =
     (if oldRate = 0 then Inr 0
      else
        bindE (if oldRate > newRate then checked_sub oldRate newRate
               else checked_sub newRate oldRate)
          (\<lambda>diff. bindE (checked_mul diff 10000) (\<lambda>scaled. checked_div scaled oldRate)))"

subsection \<open>Trimming the TWAP history\<close>

text \<open>
  \<open>_trimHistory\<close>: the \<open>while\<close> loop counts the leading timestamps older than the cutoff
  (\<open>first_within\<close>); when something is to be dropped and the history holds more than 100
  entries, the first \<open>for\<close> loop shifts both arrays down by \<open>i\<close> (\<open>shift_loop\<close>, one
  iteration per step, with the bounds check of every array access) and the second pops \<open>i\<close>
  entries from each (\<open>pop_loop\<close>).
\<close>

fun first_within :: "nat list \<Rightarrow> nat \<Rightarrow> nat \<Rightarrow> nat" where
  "first_within [] cutoff i = i"
| "first_within (t # ts) cutoff i = (if t < cutoff then first_within ts cutoff (i + 1) else i)"

fun shift_loop :: "nat \<Rightarrow> nat \<Rightarrow> nat \<Rightarrow> CurrencyPair \<Rightarrow> error + CurrencyPair" where
  "shift_loop 0 j i pair = Inr pair"
| "shift_loop (Suc n) j i pair =
     (if j + i < length (rateHistory pair) \<and> j + i < length (timestamps pair) then
        shift_loop n (j + 1) i
          (pair\<lparr>rateHistory := (rateHistory pair)[j := rateHistory pair ! (j + i)],
                timestamps := (timestamps pair)[j := timestamps pair ! (j + i)]\<rparr>)
      else Inl Panic_index)"

fun pop_loop :: "nat \<Rightarrow> CurrencyPair \<Rightarrow> error + CurrencyPair" where
  "pop_loop 0 pair = Inr pair"
| "pop_loop (Suc n) pair =
     (if rateHistory pair = [] \<or> timestamps pair = [] then Inl Panic_pop
      else pop_loop n (pair\<lparr>rateHistory := butlast (rateHistory pair),
                             timestamps := butlast (timestamps pair)\<rparr>))"

definition internal_trimHistory :: "nat \<Rightarrow> CurrencyPair \<Rightarrow> error + CurrencyPair" where
  "internal_trimHistory now pair =
     bindE (checked_sub now (twapPeriod pair))
       (\<lambda>cutoff.
          let i = first_within (timestamps pair) cutoff 0 in
          if i > 0 \<and> length (rateHistory pair) > 100 then
            bindE (checked_sub (length (rateHistory pair)) i)
              (\<lambda>newLength. bindE (shift_loop newLength 0 i pair) (pop_loop i))
          else Inr pair)"

subsection \<open>Price updates\<close>

text \<open>
  \<open>updatePrice_store\<close> is the part of \<open>updatePrice\<close> after the circuit-breaker check: it
  stores the caller's report, recomputes the aggregated rate, appends it to the history,
  trims the history and counts the update. \<open>pair\<close> is a storage pointer in the source, so
  every read goes to the current state.
\<close>

definition updatePrice_store ::
  "OracleAggregator \<Rightarrow> nat \<Rightarrow> address \<Rightarrow> bytes32 \<Rightarrow> nat \<Rightarrow> nat \<Rightarrow> error + OracleAggregator"
where
  "updatePrice_store s now msg_sender pid r c =
     (let s1 = s\<lparr>oraclePrices := (oraclePrices s)
                 (pid := (oraclePrices s pid)
                    (msg_sender := \<lparr>rate = r, timestamp = now, confidence = c,
                                price_isActive = True\<rparr>))\<rparr>
      in
      bindE (checked_add (totalUpdates (oracleSources s1 msg_sender)) 1)
        (\<lambda>n.
          let s2 = s1\<lparr>oracleSources := (oracleSources s1)
                      (msg_sender := (oracleSources s1 msg_sender)
                         \<lparr>source_lastUpdate := now, totalUpdates := n\<rparr>)\<rparr>
          in
          bindE (internal_calculateAggregatedRate s2 now pid)
            (\<lambda>aggregatedRate.
              let pair = (pairs s2 pid)
                    \<lparr>currentRate := aggregatedRate, lastUpdate := now,
                     rateHistory := rateHistory (pairs s2 pid) @ [aggregatedRate],
                     timestamps := timestamps (pairs s2 pid) @ [now]\<rparr>
              in
              bindE (internal_trimHistory now pair)
                (\<lambda>pair'.
                  bindE (checked_add (totalPriceUpdates s2) 1)
                    (\<lambda>m. Inr (s2\<lparr>pairs := (pairs s2)(pid := pair'),
                                  totalPriceUpdates := m,
                                  oracle_events := oracle_events s2 @
                                    [PriceUpdated pid msg_sender r now]\<rparr>))))))"

definition updatePrice ::
  "OracleAggregator \<Rightarrow> nat \<Rightarrow> address \<Rightarrow> bytes32 \<Rightarrow> nat \<Rightarrow> nat \<Rightarrow> error + OracleAggregator"
where
  "updatePrice s now msg_sender pid r c =
     (if \<not> oracle_hasRole s PRICE_UPDATER msg_sender then Inl Unauthorized
      else if \<not> pair_isActive (pairs s pid) then Inl (Revert ''Pair not active'')
      else if \<not> r > 0 then Inl (Revert ''Invalid rate'')
      else if \<not> c \<le> 100 then Inl (Revert ''Invalid confidence'')
      else if currentRate (pairs s pid) > 0 then
        bindE (internal_calculateDeviation (currentRate (pairs s pid)) r)
          (\<lambda>deviation.
            if deviation > maxDeviation (pairs s pid) then
              bindE (checked_add (circuitBreakerTriggers s) 1)
                (\<lambda>n. Inr (s\<lparr>pairs := (pairs s)
                               (pid := (pairs s pid)\<lparr>circuitBreakerTripped := True\<rparr>),
                             circuitBreakerTriggers := n,
                             oracle_events := oracle_events s @
                               [CircuitBreakerTripped pid (currentRate (pairs s pid)) r
                                  deviation]\<rparr>))
            else updatePrice_store s now msg_sender pid r c)
      else updatePrice_store s now msg_sender pid r c)"

text \<open>
  \<open>batchUpdatePrices\<close>: after the two length checks the loop reads the three arrays at the
  same index, so it runs over the zipped entries.
\<close>

definition batch_step ::
  "nat \<Rightarrow> address \<Rightarrow> bytes32 \<times> nat \<times> nat \<Rightarrow> OracleAggregator \<Rightarrow> OracleAggregator"
where
  "batch_step now msg_sender entry s =
     (case entry of (pid, r, c) \<Rightarrow>
        if pair_isActive (pairs s pid) \<and> r > 0 then
          s\<lparr>oraclePrices := (oraclePrices s)
               (pid := (oraclePrices s pid)
                  (msg_sender := \<lparr>rate = r, timestamp = now, confidence = c,
                              price_isActive = True\<rparr>)),
            pairs := (pairs s)(pid := (pairs s pid)\<lparr>currentRate := r, lastUpdate := now\<rparr>)\<rparr>
        else s)"

fun batch_loop ::
  "nat \<Rightarrow> address \<Rightarrow> (bytes32 \<times> nat \<times> nat) list \<Rightarrow> OracleAggregator \<Rightarrow> OracleAggregator"
where
  "batch_loop now msg_sender [] s = s"
| "batch_loop now msg_sender (entry # rest) s = batch_loop now msg_sender rest (batch_step now msg_sender entry s)"

definition batchUpdatePrices ::
  "OracleAggregator \<Rightarrow> nat \<Rightarrow> address \<Rightarrow> bytes32 list \<Rightarrow> nat list \<Rightarrow> nat list
     \<Rightarrow> error + OracleAggregator"
where
  "batchUpdatePrices s now msg_sender pairIds rates confidences =
     (if \<not> oracle_hasRole s PRICE_UPDATER msg_sender then Inl Unauthorized
      else if length pairIds \<noteq> length rates then Inl (Revert ''Length mismatch'')
      else if length pairIds \<noteq> length confidences then Inl (Revert ''Length mismatch'')
      else
        (let s' = batch_loop now msg_sender (zip pairIds (zip rates confidences)) s in
         bindE (checked_add (totalPriceUpdates s') (length pairIds))
           (\<lambda>n. Inr (s'\<lparr>totalPriceUpdates := n\<rparr>))))"

subsection \<open>Rate queries\<close>

text \<open>
  The \<open>view\<close> functions read the state and return a value or revert. \<open>twap_loop\<close> is the
  loop of \<open>_calculateTWAP\<close> (its first argument counts the iterations left, its index is
  \<open>i\<close>); \<open>confidence_loop\<close> is the loop of \<open>_calculateConfidence\<close>.
\<close>

fun twap_loop ::
  "nat \<Rightarrow> CurrencyPair \<Rightarrow> nat \<Rightarrow> nat \<Rightarrow> nat \<Rightarrow> nat \<times> nat \<Rightarrow> error + (nat \<times> nat)"
where
  "twap_loop now pair cutoff 0 i acc = Inr acc"
| "twap_loop now pair cutoff (Suc n) i (weightedSum, totalTime) =
     (if \<not> i < length (timestamps pair) then Inl Panic_index
      else if timestamps pair ! i < cutoff then
        twap_loop now pair cutoff n (i + 1) (weightedSum, totalTime)
      else
        (case (if i = length (rateHistory pair) - 1
               then checked_sub now (timestamps pair ! i)
               else if i + 1 < length (timestamps pair)
               then checked_sub (timestamps pair ! (i + 1)) (timestamps pair ! i)
               else Inl Panic_index) of
           Inl e \<Rightarrow> Inl e
         | Inr timeDelta \<Rightarrow>
            (case checked_mul (rateHistory pair ! i) timeDelta of
               Inl e \<Rightarrow> Inl e
             | Inr product \<Rightarrow>
                (case checked_add weightedSum product of
                   Inl e \<Rightarrow> Inl e
                 | Inr weightedSum' \<Rightarrow>
                    (case checked_add totalTime timeDelta of
                       Inl e \<Rightarrow> Inl e
                     | Inr totalTime' \<Rightarrow>
                        twap_loop now pair cutoff n (i + 1) (weightedSum', totalTime'))))))"

definition internal_calculateTWAP :: "nat \<Rightarrow> CurrencyPair \<Rightarrow> error + nat" where
  "internal_calculateTWAP now pair =
     (if length (rateHistory pair) = 0 then Inr (currentRate pair)
      else if length (rateHistory pair) = 1 then Inr (rateHistory pair ! 0)
      else
        bindE (checked_sub now (twapPeriod pair))
          (\<lambda>cutoff.
            bindE (twap_loop now pair cutoff (length (rateHistory pair)) 0 (0, 0))
              (\<lambda>(weightedSum, totalTime).
                 if totalTime = 0 then Inr (currentRate pair)
                 else checked_div weightedSum totalTime)))"

fun confidence_loop ::
  "OracleAggregator \<Rightarrow> nat \<Rightarrow> bytes32 \<Rightarrow> address list \<Rightarrow> nat \<times> nat \<Rightarrow> error + (nat \<times> nat)"
where
  "confidence_loop s now pid [] acc = Inr acc"
| "confidence_loop s now pid (a # rest) (validOracles, totalConfidence) =
     (if price_isActive (oraclePrices s pid a) then
        (case checked_sub now (timestamp (oraclePrices s pid a)) of
           Inl e \<Rightarrow> Inl e
         | Inr age \<Rightarrow>
            if age \<le> stalenessThreshold s then
              (case checked_add validOracles 1 of
                 Inl e \<Rightarrow> Inl e
               | Inr validOracles' \<Rightarrow>
                  (case checked_add totalConfidence (confidence (oraclePrices s pid a)) of
                     Inl e \<Rightarrow> Inl e
                   | Inr totalConfidence' \<Rightarrow>
                      confidence_loop s now pid rest (validOracles', totalConfidence')))
            else confidence_loop s now pid rest (validOracles, totalConfidence))
      else confidence_loop s now pid rest (validOracles, totalConfidence))"

definition internal_calculateConfidence ::
  "OracleAggregator \<Rightarrow> nat \<Rightarrow> bytes32 \<Rightarrow> error + nat"
where
  "internal_calculateConfidence s now pid =
     bindE (confidence_loop s now pid (activeOracles s) (0, 0))
       (\<lambda>(validOracles, totalConfidence).
          if validOracles = 0 then Inr 0 else checked_div totalConfidence validOracles)"

definition internal_getRate :: "OracleAggregator \<Rightarrow> nat \<Rightarrow> bytes32 \<Rightarrow> error + RateResponse" where
  "internal_getRate s now pid =
     bindE (checked_sub now (lastUpdate (pairs s pid)))
       (\<lambda>age.
         bindE (internal_calculateTWAP now (pairs s pid))
           (\<lambda>twap.
             bindE (internal_calculateConfidence s now pid)
               (\<lambda>conf.
                 Inr \<lparr>spotRate = currentRate (pairs s pid),
                      twapRate = twap,
                      response_confidence = conf,
                      response_timestamp = lastUpdate (pairs s pid),
                      isStale = (age > stalenessThreshold s),
                      circuitBreakerActive = circuitBreakerTripped (pairs s pid)\<rparr>)))"

definition getRate :: "OracleAggregator \<Rightarrow> nat \<Rightarrow> bytes32 \<Rightarrow> error + RateResponse" where
  "getRate s now pid = internal_getRate s now pid"

text \<open>
  \<open>keccak256\<close> is not part of the repository; the functions that hash take it as their
  first argument. \<open>abi.encodePacked\<close> of strings is their concatenation.
\<close>

definition getRateBySymbols ::
  "(string \<Rightarrow> bytes32) \<Rightarrow> OracleAggregator \<Rightarrow> nat \<Rightarrow> string \<Rightarrow> string \<Rightarrow> error + RateResponse"
where
  "getRateBySymbols keccak256 s now b q = internal_getRate s now (keccak256 (b @ ''/'' @ q))"


subsection \<open>Administration\<close>

definition internal_addPair ::
  "(string \<Rightarrow> bytes32) \<Rightarrow> OracleAggregator \<Rightarrow> string \<Rightarrow> string \<Rightarrow> error + OracleAggregator"
where
  "internal_addPair keccak256 s b q =
     (let pid = keccak256 (b @ ''/'' @ q) in
      if pair_isActive (pairs s pid) then Inl (Revert ''Pair exists'')
      else
        Inr (s\<lparr>pairs := (pairs s)
                 (pid := (pairs s pid)
                    \<lparr>base := b, quote := q, pairId := pid, pair_isActive := True,
                     twapPeriod := defaultTwapPeriod s, maxDeviation := defaultMaxDeviation s\<rparr>),
               activePairs := activePairs s @ [pid],
               oracle_events := oracle_events s @ [PairAdded pid b q]\<rparr>))"

definition addPair ::
  "(string \<Rightarrow> bytes32) \<Rightarrow> OracleAggregator \<Rightarrow> address \<Rightarrow> string \<Rightarrow> string \<Rightarrow> error + OracleAggregator"
where
  "addPair keccak256 s msg_sender b q =
     (if \<not> oracle_hasRole s ORACLE_ADMIN msg_sender then Inl Unauthorized
      else internal_addPair keccak256 s b q)"

definition addOracle ::
  "OracleAggregator \<Rightarrow> address \<Rightarrow> address \<Rightarrow> string \<Rightarrow> nat \<Rightarrow> error + OracleAggregator"
where
  "addOracle s msg_sender a nm w =
     (if \<not> oracle_hasRole s ORACLE_ADMIN msg_sender then Inl Unauthorized
      else if a = 0 then Inl (Revert ''Invalid oracle'')
      else if source_isActive (oracleSources s a) then Inl (Revert ''Oracle exists'')
      else
        Inr (s\<lparr>oracleSources := (oracleSources s)
                 (a := \<lparr>source_oracle = a, name = nm, weight = w, source_isActive = True,
                        source_lastUpdate = 0, totalUpdates = 0\<rparr>),
               activeOracles := activeOracles s @ [a],
               oracle_events := oracle_events s @ [OracleAdded a nm w]\<rparr>))"

definition updateOracleWeight ::
  "OracleAggregator \<Rightarrow> address \<Rightarrow> address \<Rightarrow> nat \<Rightarrow> error + OracleAggregator"
where
  "updateOracleWeight s msg_sender a w =
     (if \<not> oracle_hasRole s ORACLE_ADMIN msg_sender then Inl Unauthorized
      else if \<not> source_isActive (oracleSources s a) then Inl (Revert ''Oracle not found'')
      else Inr (s\<lparr>oracleSources := (oracleSources s)(a := (oracleSources s a)\<lparr>weight := w\<rparr>)\<rparr>))"

definition deactivateOracle ::
  "OracleAggregator \<Rightarrow> address \<Rightarrow> address \<Rightarrow> error + OracleAggregator"
where
  "deactivateOracle s msg_sender a =
     (if \<not> oracle_hasRole s ORACLE_ADMIN msg_sender then Inl Unauthorized
      else Inr (s\<lparr>oracleSources := (oracleSources s)
                    (a := (oracleSources s a)\<lparr>source_isActive := False\<rparr>)\<rparr>))"

definition resetCircuitBreaker ::
  "OracleAggregator \<Rightarrow> address \<Rightarrow> bytes32 \<Rightarrow> error + OracleAggregator"
where
  "resetCircuitBreaker s msg_sender pid =
     (if \<not> oracle_hasRole s ORACLE_ADMIN msg_sender then Inl Unauthorized
      else Inr (s\<lparr>pairs := (pairs s)(pid := (pairs s pid)\<lparr>circuitBreakerTripped := False\<rparr>),
                  oracle_events := oracle_events s @ [CircuitBreakerReset pid]\<rparr>))"

definition setMaxDeviation ::
  "OracleAggregator \<Rightarrow> address \<Rightarrow> bytes32 \<Rightarrow> nat \<Rightarrow> error + OracleAggregator"
where
  "setMaxDeviation s msg_sender pid d =
     (if \<not> oracle_hasRole s ORACLE_ADMIN msg_sender then Inl Unauthorized
      else Inr (s\<lparr>pairs := (pairs s)(pid := (pairs s pid)\<lparr>maxDeviation := d\<rparr>)\<rparr>))"

definition setStalenessThreshold ::
  "OracleAggregator \<Rightarrow> address \<Rightarrow> nat \<Rightarrow> error + OracleAggregator"
where
  "setStalenessThreshold s msg_sender threshold =
     (if \<not> oracle_hasRole s ORACLE_ADMIN msg_sender then Inl Unauthorized
      else Inr (s\<lparr>stalenessThreshold := threshold\<rparr>))"

definition setMinOracleCount ::
  "OracleAggregator \<Rightarrow> address \<Rightarrow> nat \<Rightarrow> error + OracleAggregator"
where
  "setMinOracleCount s msg_sender n =
     (if \<not> oracle_hasRole s ORACLE_ADMIN msg_sender then Inl Unauthorized
      else Inr (s\<lparr>minOracleCount := n\<rparr>))"

definition setTwapPeriod ::
  "OracleAggregator \<Rightarrow> address \<Rightarrow> bytes32 \<Rightarrow> nat \<Rightarrow> error + OracleAggregator"
where
  "setTwapPeriod s msg_sender pid period =
     (if \<not> oracle_hasRole s ORACLE_ADMIN msg_sender then Inl Unauthorized
      else Inr (s\<lparr>pairs := (pairs s)(pid := (pairs s pid)\<lparr>twapPeriod := period\<rparr>)\<rparr>))"

subsection \<open>Sequences of calls\<close>

text \<open>
  Every external function of the contract as a call, with its caller where the function
  reads \<open>msg.sender\<close>. \<open>oracle_exec\<close> runs one call at a block time: a call that reverts
  leaves the state as it was, and a \<open>view\<close> function cannot write, whatever it returns.
  \<open>oracle_run\<close> runs a list of timed calls in order.
\<close>

datatype oracle_call =
    AddPair address string string
  | AddOracle address address string nat
  | UpdateOracleWeight address address nat
  | DeactivateOracle address address
  | UpdatePrice address bytes32 nat nat
  | BatchUpdatePrices address "bytes32 list" "nat list" "nat list"
  | ResetCircuitBreaker address bytes32
  | SetMaxDeviation address bytes32 nat
  | SetStalenessThreshold address nat
  | SetMinOracleCount address nat
  | SetTwapPeriod address bytes32 nat
  | GetRate bytes32
  | GetRateBySymbols string string
  | Convert bytes32 nat bool

definition stays :: "'s \<Rightarrow> error + 's \<Rightarrow> 's" where
  "stays s r = (case r of Inl e \<Rightarrow> s | Inr s' \<Rightarrow> s')"

fun oracle_exec ::
  "(string \<Rightarrow> bytes32) \<Rightarrow> nat \<times> oracle_call \<Rightarrow> OracleAggregator \<Rightarrow> OracleAggregator"
where
  "oracle_exec k (now, AddPair msg_sender b q) s = stays s (addPair k s msg_sender b q)"
| "oracle_exec k (now, AddOracle msg_sender a nm w) s = stays s (addOracle s msg_sender a nm w)"
| "oracle_exec k (now, UpdateOracleWeight msg_sender a w) s = stays s (updateOracleWeight s msg_sender a w)"
| "oracle_exec k (now, DeactivateOracle msg_sender a) s = stays s (deactivateOracle s msg_sender a)"
| "oracle_exec k (now, UpdatePrice msg_sender pid r c) s = stays s (updatePrice s now msg_sender pid r c)"
| "oracle_exec k (now, BatchUpdatePrices msg_sender ps rs cs) s =
     stays s (batchUpdatePrices s now msg_sender ps rs cs)"
| "oracle_exec k (now, ResetCircuitBreaker msg_sender pid) s = stays s (resetCircuitBreaker s msg_sender pid)"
| "oracle_exec k (now, SetMaxDeviation msg_sender pid d) s = stays s (setMaxDeviation s msg_sender pid d)"
| "oracle_exec k (now, SetStalenessThreshold msg_sender t) s = stays s (setStalenessThreshold s msg_sender t)"
| "oracle_exec k (now, SetMinOracleCount msg_sender n) s = stays s (setMinOracleCount s msg_sender n)"
| "oracle_exec k (now, SetTwapPeriod msg_sender pid p) s = stays s (setTwapPeriod s msg_sender pid p)"
| "oracle_exec k (now, GetRate pid) s = s"
| "oracle_exec k (now, GetRateBySymbols b q) s = s"
| "oracle_exec k (now, Convert pid amt inverse_flag) s = s"

fun oracle_run ::
  "(string \<Rightarrow> bytes32) \<Rightarrow> (nat \<times> oracle_call) list \<Rightarrow> OracleAggregator \<Rightarrow> OracleAggregator"
where
  "oracle_run k [] s = s"
| "oracle_run k (c # cs) s = oracle_run k cs (oracle_exec k c s)"

section \<open>ComplianceEngine\<close>

text \<open>
  \<open>ComplianceTier\<close> is declared with the same members in ComplianceEngine and in
  PayFlowCore; \<open>tier_rank\<close> is the enum's underlying number, which \<open><\<close> compares.
  Of the contract's storage the model keeps what \<open>checkPaymentCompliance\<close> and
  \<open>getEntityProfile\<close> read or write.
\<close>

datatype ComplianceTier = NONE | BASIC | STANDARD | ENHANCED | INSTITUTIONAL

fun tier_rank :: "ComplianceTier \<Rightarrow> nat" where
  "tier_rank NONE = 0"
| "tier_rank BASIC = 1"
| "tier_rank STANDARD = 2"
| "tier_rank ENHANCED = 3"
| "tier_rank INSTITUTIONAL = 4"

record EntityProfile =
  entity :: address
  tier :: ComplianceTier
  isVerified :: bool
  isSanctioned :: bool
  identityHash :: bytes32
  jurisdiction :: string
  isPEP :: bool
  dailyLimit :: nat
  monthlyLimit :: nat
  singleTxLimit :: nat
  dailyVolume :: nat
  monthlyVolume :: nat
  lastDayReset :: nat
  lastMonthReset :: nat
  verifiedAt :: nat
  expiresAt :: nat
  verifiedBy :: address
  riskScore :: nat
  underReview :: bool

record TransactionCheck =
  passed :: bool
  reason :: string
  requiresTravelRule :: bool
  requiresEnhancedDD :: bool
  check_timestamp :: nat

datatype compliance_event = TransactionChecked bytes32 address address bool string

record ComplianceEngine =
  profiles :: "address \<Rightarrow> EntityProfile"
  travelRuleThreshold :: nat
  totalChecks :: nat
  totalRejections :: nat
  compliance_events :: "compliance_event list"

definition internal_reject ::
  "ComplianceEngine \<Rightarrow> nat \<Rightarrow> bytes32 \<Rightarrow> address \<Rightarrow> address \<Rightarrow> string
     \<Rightarrow> error + (ComplianceEngine \<times> TransactionCheck)"
where
  "internal_reject s now pid snd_party rcv_party why =
     bindE (checked_add (totalRejections s) 1)
       (\<lambda>n. Inr (s\<lparr>totalRejections := n,
                    compliance_events := compliance_events s @
                      [TransactionChecked pid snd_party rcv_party False why]\<rparr>,
                  \<lparr>passed = False, reason = why, requiresTravelRule = False,
                   requiresEnhancedDD = False, check_timestamp = now\<rparr>))"

definition internal_resetLimitsIfNeeded :: "nat \<Rightarrow> EntityProfile \<Rightarrow> EntityProfile" where
  "internal_resetLimitsIfNeeded now profile =
     (let currentDay = now div 86400;
          currentMonth = now div (30 * 86400);
          p1 = (if lastDayReset profile < currentDay
                then profile\<lparr>dailyVolume := 0, lastDayReset := currentDay\<rparr>
                else profile)
      in if lastMonthReset p1 < currentMonth
         then p1\<lparr>monthlyVolume := 0, lastMonthReset := currentMonth\<rparr>
         else p1)"

text \<open>
  \<open>checkPaymentCompliance\<close>. \<open>senderProfile\<close> and \<open>recipientProfile\<close> are storage pointers
  (they alias when sender and recipient are the same address), so every read goes to the
  current state. A rejection returns normally: what was written before it (the check
  counter, the period reset) stays written. \<open>checkPaymentCompliance_limits\<close> is the part of
  the function after the call of \<open>_resetLimitsIfNeeded\<close>: the three limit checks, the volume
  update and the result.
\<close>

definition checkPaymentCompliance_limits ::
  "ComplianceEngine \<Rightarrow> nat \<Rightarrow> bytes32 \<Rightarrow> address \<Rightarrow> address \<Rightarrow> nat
     \<Rightarrow> error + (ComplianceEngine \<times> TransactionCheck)"
where
  "checkPaymentCompliance_limits s1 now pid snd_party rcv_party amt =
     (if amt > singleTxLimit (profiles s1 snd_party) then
        internal_reject s1 now pid snd_party rcv_party ''Exceeds single transaction limit''
      else
        bindE (checked_add (dailyVolume (profiles s1 snd_party)) amt)
          (\<lambda>daily.
            if daily > dailyLimit (profiles s1 snd_party) then
              internal_reject s1 now pid snd_party rcv_party ''Exceeds daily limit''
            else
              bindE (checked_add (monthlyVolume (profiles s1 snd_party)) amt)
                (\<lambda>monthly.
                  if monthly > monthlyLimit (profiles s1 snd_party) then
                    internal_reject s1 now pid snd_party rcv_party ''Exceeds monthly limit''
                  else
                    (let s2 = s1\<lparr>profiles := (profiles s1)
                                 (snd_party := (profiles s1 snd_party)
                                    \<lparr>dailyVolume := daily, monthlyVolume := monthly\<rparr>)\<rparr>
                     in
                     Inr (s2\<lparr>compliance_events := compliance_events s2 @
                               [TransactionChecked pid snd_party rcv_party True ''Passed'']\<rparr>,
                          \<lparr>passed = True,
                           reason = ''Compliance check passed'',
                           requiresTravelRule = (amt \<ge> travelRuleThreshold s2),
                           requiresEnhancedDD =
                             (riskScore (profiles s2 snd_party) > 70 \<or>
                              riskScore (profiles s2 rcv_party) > 70 \<or>
                              isPEP (profiles s2 snd_party) \<or>
                              isPEP (profiles s2 rcv_party)),
                           check_timestamp = now\<rparr>)))))"

definition checkPaymentCompliance ::
  "ComplianceEngine \<Rightarrow> nat \<Rightarrow> bytes32 \<Rightarrow> address \<Rightarrow> address \<Rightarrow> nat \<Rightarrow> bool
     \<Rightarrow> ComplianceTier \<Rightarrow> ComplianceTier \<Rightarrow> error + (ComplianceEngine \<times> TransactionCheck)"
where
  "checkPaymentCompliance s now pid snd_party rcv_party amt requireSanctions
       requiredSenderTier' requiredRecipientTier' =
     bindE (checked_add (totalChecks s) 1)
       (\<lambda>n.
         let s0 = s\<lparr>totalChecks := n\<rparr> in
         if requireSanctions \<and> isSanctioned (profiles s0 snd_party) then
           internal_reject s0 now pid snd_party rcv_party ''Sender is sanctioned''
         else if requireSanctions \<and> isSanctioned (profiles s0 rcv_party) then
           internal_reject s0 now pid snd_party rcv_party ''Recipient is sanctioned''
         else if tier_rank (tier (profiles s0 snd_party)) < tier_rank requiredSenderTier' then
           internal_reject s0 now pid snd_party rcv_party ''Sender tier insufficient''
         else if tier_rank (tier (profiles s0 rcv_party)) < tier_rank requiredRecipientTier' then
           internal_reject s0 now pid snd_party rcv_party ''Recipient tier insufficient''
         else if isVerified (profiles s0 snd_party) \<and> expiresAt (profiles s0 snd_party) < now then
           internal_reject s0 now pid snd_party rcv_party ''Sender verification expired''
         else
           checkPaymentCompliance_limits
             (s0\<lparr>profiles := (profiles s0)
                  (snd_party := internal_resetLimitsIfNeeded now (profiles s0 snd_party))\<rparr>)
             now pid snd_party rcv_party amt)"



section \<open>ERC20 tokens\<close>

text \<open>
  PayFlowCore and SmartEscrow move tokens through \<open>SafeERC20\<close>. The token contracts are
  outside the two contracts; the repository's own tokens (MockStablecoins.sol, WETH.sol)
  inherit OpenZeppelin's ERC20, whose transfer the ledger follows: it reverts when the
  receiver is \<open>address(0)\<close> or the holder's balance is too small, and \<open>transferFrom\<close> also when
  the allowance is too small (an allowance of \<open>type(uint256).max\<close> is not spent). The
  ledger keeps, per token, the balances and allowances, and the list of transfers made
  (token, from, to, value), as the token's \<open>Transfer\<close> events record them.
\<close>

record Ledger =
  balances :: "address \<Rightarrow> address \<Rightarrow> nat"
  allowances :: "address \<Rightarrow> address \<Rightarrow> address \<Rightarrow> nat"
  transferLog :: "(address \<times> address \<times> address \<times> nat) list"

definition move :: "Ledger \<Rightarrow> address \<Rightarrow> address \<Rightarrow> address \<Rightarrow> nat \<Rightarrow> error + Ledger" where
  "move l tok src dst v =
     (if src = 0 \<or> dst = 0 then Inl ERC20_revert
      else if balances l tok src < v then Inl ERC20_revert
      else
        (let b1 = (balances l tok)(src := balances l tok src - v);
             b2 = b1(dst := b1 dst + v)
         in Inr (l\<lparr>balances := (balances l)(tok := b2),
                   transferLog := transferLog l @ [(tok, src, dst, v)]\<rparr>)))"

definition safeTransfer :: "Ledger \<Rightarrow> address \<Rightarrow> address \<Rightarrow> address \<Rightarrow> nat \<Rightarrow> error + Ledger" where
  "safeTransfer l tok this dst v = move l tok this dst v"

definition safeTransferFrom ::
  "Ledger \<Rightarrow> address \<Rightarrow> address \<Rightarrow> address \<Rightarrow> address \<Rightarrow> nat \<Rightarrow> error + Ledger"
where
  "safeTransferFrom l tok this src dst v =
     (if allowances l tok src this = MAX_UINT256 then move l tok src dst v
      else if allowances l tok src this < v then Inl ERC20_revert
      else
        move (l\<lparr>allowances := (allowances l)
                  (tok := (allowances l tok)
                     (src := (allowances l tok src)(this := allowances l tok src this - v)))\<rparr>)
          tok src dst v)"

section \<open>PayFlowCore\<close>

text \<open>
  The structs \<open>PaymentConditions\<close> and \<open>Payment\<close>. The fields \<open>token\<close>, \<open>amount\<close>,
  \<open>status\<close> and \<open>createdAt\<close>, which \<open>Escrow\<close> has too, carry the prefix \<open>payment_\<close>; the
  member \<open>DISPUTED\<close> of \<open>PaymentStatus\<close>, which \<open>EscrowStatus\<close> has too, is
  \<open>PAYMENT_DISPUTED\<close>.
\<close>

datatype PaymentStatus =
  CREATED | PENDING | APPROVED | EXECUTED | FAILED | CANCELLED | PAYMENT_DISPUTED

record PaymentConditions =
  requiredSenderTier :: ComplianceTier
  requiredRecipientTier :: ComplianceTier
  requireSanctionsCheck :: bool
  validFrom :: nat
  validUntil :: nat
  businessHoursOnly :: bool
  maxSlippage :: nat
  requiredApprovals :: nat
  approvers :: "address list"
  useEscrow :: bool
  escrowReleaseTime :: nat
  escrowConditionHash :: bytes32

record Payment =
  paymentId :: bytes32
  sender :: address
  recipient :: address
  payment_token :: address
  payment_amount :: nat
  targetToken :: address
  targetAmount :: nat
  payment_status :: PaymentStatus
  payment_createdAt :: nat
  executedAt :: nat
  conditions :: PaymentConditions
  approvalCount :: nat
  hasApproved :: "address \<Rightarrow> bool"
  referenceId :: bytes32
  memo :: string

datatype payflow_event =
    PaymentCreated bytes32 address address address nat bytes32
  | PaymentApproved bytes32 address nat nat
  | PaymentExecuted bytes32 address address nat nat
  | PaymentFailed bytes32 string
  | PaymentCancelled bytes32 address
  | CrossBorderSettlement bytes32 address address nat nat nat
  | ComplianceVerified bytes32 address ComplianceTier bool

text \<open>
  The contract's storage, its own address (\<open>core_address\<close>, \<open>address(this)\<close>), and the two
  things outside it that execution touches: the token ledger, and the audit registry behind
  the interface \<open>IAuditRegistry\<close>, of which the model keeps whether it accepts a call
  (\<open>auditRegistryAccepts\<close>) and the calls it has received.
\<close>

record PayFlowCore =
  core_address :: address
  payflow_hasRole :: "role \<Rightarrow> address \<Rightarrow> bool"
  paused :: bool
  payments :: "bytes32 \<Rightarrow> Payment"
  paymentIds :: "bytes32 list"
  userPaymentsSent :: "address \<Rightarrow> bytes32 list"
  userPaymentsReceived :: "address \<Rightarrow> bytes32 list"
  supportedTokens :: "address \<Rightarrow> bool"
  tokenList :: "address list"
  complianceEngine :: address
  oracleAggregator :: address
  escrowVault :: address
  auditRegistry :: address
  protocolFeeBps :: nat
  feeRecipient :: address
  maxPaymentAmount :: nat
  totalPaymentsCreated :: nat
  totalPaymentsExecuted :: nat
  totalVolumeProcessed :: nat
  averageSettlementTime :: nat
  payflow_events :: "payflow_event list"
  ledger :: Ledger
  auditRegistryAccepts :: bool
  auditCalls :: "(bytes32 \<times> address \<times> address \<times> nat \<times> nat) list"

subsection \<open>Condition checking\<close>

definition internal_canAutoExecute :: "Payment \<Rightarrow> bool" where
  "internal_canAutoExecute payment =
     (let c = conditions payment in
      if requiredSenderTier c = NONE \<and>
         requiredRecipientTier c = NONE \<and>
         \<not> requireSanctionsCheck c \<and>
         validFrom c = 0 \<and>
         validUntil c = 0 \<and>
         \<not> businessHoursOnly c \<and>
         requiredApprovals c = 0 \<and>
         \<not> useEscrow c
      then True else False)"

definition internal_allConditionsMet :: "nat \<Rightarrow> Payment \<Rightarrow> bool" where
  "internal_allConditionsMet now payment =
     (let c = conditions payment in
      if validFrom c > 0 \<and> now < validFrom c then False
      else if validUntil c > 0 \<and> now > validUntil c then False
      else if requiredApprovals c > 0 \<and> approvalCount payment < requiredApprovals c then False
      else True)"

definition internal_isApprover :: "Payment \<Rightarrow> address \<Rightarrow> bool" where
  "internal_isApprover payment account = (account \<in> set (approvers (conditions payment)))"

subsection \<open>Execution\<close>

text \<open>
  \<open>_performFXConversion\<close> ignores its first, fourth and fifth parameter (they are unnamed
  in the source) and reads the contract's balance of the target token.
\<close>

definition internal_performFXConversion ::
  "Ledger \<Rightarrow> address \<Rightarrow> address \<Rightarrow> address \<Rightarrow> nat \<Rightarrow> nat \<Rightarrow> nat \<Rightarrow> error + nat"
where
  "internal_performFXConversion l this sourceToken targetToken' sourceAmount minTargetAmount
       maxSlippage' =
     (if balances l targetToken' this \<ge> sourceAmount then Inr sourceAmount
      else Inl (Revert ''Insufficient liquidity''))"

text \<open>
  \<open>_executePayment\<close>, in the stages that the source marks with comments: the protocol fee
  (\<open>deduct_protocol_fee\<close> returns the amount left to send and the ledger after the fee
  transfer), the conversion for a payment whose target token differs
  (\<open>handle_cross_border\<close> returns the amount to send and the event it emits), the transfer
  to the recipient or the escrow vault, the state update with the statistics
  (\<open>settlement_statistics\<close> returns the settlement time, the new count, volume and
  average), and the call of the audit registry (\<open>log_to_audit_registry\<close> returns the
  registry's calls).
\<close>

definition deduct_protocol_fee :: "PayFlowCore \<Rightarrow> Payment \<Rightarrow> error + (nat \<times> Ledger)" where
  "deduct_protocol_fee s payment =
     (if protocolFeeBps s > 0 then
        bindE (checked_mul (payment_amount payment) (protocolFeeBps s))
          (\<lambda>x. bindE (checked_div x 10000)
            (\<lambda>fee. bindE (checked_sub (payment_amount payment) fee)
              (\<lambda>amountToSend.
                 bindE (safeTransfer (ledger s) (payment_token payment) (core_address s)
                          (feeRecipient s) fee)
                   (\<lambda>l. Inr (amountToSend, l)))))
      else Inr (payment_amount payment, ledger s))"

definition handle_cross_border ::
  "PayFlowCore \<Rightarrow> Ledger \<Rightarrow> bytes32 \<Rightarrow> Payment \<Rightarrow> nat \<Rightarrow> error + (nat \<times> payflow_event list)"
where
  "handle_cross_border s l pid payment amountToSend =
     (if targetToken payment \<noteq> payment_token payment then
        bindE (internal_performFXConversion l (core_address s) (payment_token payment)
                 (targetToken payment) amountToSend (targetAmount payment)
                 (maxSlippage (conditions payment)))
          (\<lambda>converted.
             Inr (converted,
                  [CrossBorderSettlement pid (payment_token payment) (targetToken payment)
                     (payment_amount payment) converted (10 ^ 18)]))
      else Inr (amountToSend, []))"

definition settlement_statistics ::
  "PayFlowCore \<Rightarrow> nat \<Rightarrow> Payment \<Rightarrow> error + (nat \<times> nat \<times> nat \<times> nat)"
where
  "settlement_statistics s now payment =
     bindE (checked_sub now (payment_createdAt payment))
       (\<lambda>settlementTime.
         bindE (checked_add (totalPaymentsExecuted s) 1)
           (\<lambda>executed.
             bindE (checked_add (totalVolumeProcessed s) (payment_amount payment))
               (\<lambda>volume.
                 bindE (checked_sub executed 1)
                   (\<lambda>earlier.
                     bindE (checked_mul (averageSettlementTime s) earlier)
                       (\<lambda>x.
                         bindE (checked_add x settlementTime)
                           (\<lambda>y.
                             bindE (checked_div y executed)
                               (\<lambda>average.
                                  Inr (settlementTime, executed, volume, average))))))))"

definition log_to_audit_registry ::
  "PayFlowCore \<Rightarrow> bytes32 \<Rightarrow> Payment \<Rightarrow> nat
     \<Rightarrow> error + (bytes32 \<times> address \<times> address \<times> nat \<times> nat) list"
where
  "log_to_audit_registry s pid payment settlementTime =
     (if auditRegistry s \<noteq> 0 then
        if auditRegistryAccepts s then
          Inr (auditCalls s @
                 [(pid, sender payment, recipient payment, payment_amount payment,
                   settlementTime)])
        else Inl External_call_reverted
      else Inr (auditCalls s))"

definition internal_executePayment :: "PayFlowCore \<Rightarrow> nat \<Rightarrow> bytes32 \<Rightarrow> error + PayFlowCore" where
  "internal_executePayment s now pid =
     (let payment = payments s pid in
      bindE (deduct_protocol_fee s payment)
        (\<lambda>(amountAfterFee, l1).
          bindE (handle_cross_border s l1 pid payment amountAfterFee)
            (\<lambda>(amountToSend, fx_events).
              bindE (safeTransfer l1 (targetToken payment) (core_address s)
                       (if useEscrow (conditions payment) then escrowVault s
                        else recipient payment)
                       amountToSend)
                (\<lambda>l2.
                  bindE (settlement_statistics s now payment)
                    (\<lambda>(settlementTime, executed, volume, average).
                      bindE (log_to_audit_registry s pid payment settlementTime)
                        (\<lambda>calls.
                          Inr (s\<lparr>payments := (payments s)
                                  (pid := payment\<lparr>payment_status := EXECUTED,
                                                  executedAt := now\<rparr>),
                                totalPaymentsExecuted := executed,
                                totalVolumeProcessed := volume,
                                averageSettlementTime := average,
                                payflow_events := payflow_events s @ fx_events @
                                  [PaymentExecuted pid (sender payment) (recipient payment)
                                     amountToSend settlementTime],
                                ledger := l2,
                                auditCalls := calls\<rparr>)))))))"

definition executePayment :: "PayFlowCore \<Rightarrow> nat \<Rightarrow> bytes32 \<Rightarrow> error + PayFlowCore" where
  "executePayment s now pid =
     (if paymentId (payments s pid) \<noteq> pid then Inl (Revert ''Payment not found'')
      else if \<not> (payment_status (payments s pid) = PENDING \<or>
                  payment_status (payments s pid) = APPROVED)
      then Inl (Revert ''Cannot execute'')
      else if \<not> internal_allConditionsMet now (payments s pid)
      then Inl (Revert ''Conditions not met'')
      else internal_executePayment s now pid)"

subsection \<open>Approval and cancellation\<close>

definition approvePayment ::
  "PayFlowCore \<Rightarrow> nat \<Rightarrow> address \<Rightarrow> bytes32 \<Rightarrow> error + PayFlowCore"
where
  "approvePayment s now msg_sender pid =
     (if paymentId (payments s pid) \<noteq> pid then Inl (Revert ''Payment not found'')
      else if payment_status (payments s pid) \<noteq> PENDING then Inl (Revert ''Not pending approval'')
      else if hasApproved (payments s pid) msg_sender then Inl (Revert ''Already approved'')
      else if \<not> internal_isApprover (payments s pid) msg_sender then Inl (Revert ''Not an approver'')
      else
        bindE (checked_add (approvalCount (payments s pid)) 1)
          (\<lambda>n.
            let payment = (payments s pid)
                  \<lparr>approvalCount := n,
                   hasApproved := (hasApproved (payments s pid))(msg_sender := True)\<rparr>;
                s1 = s\<lparr>payments := (payments s)(pid := payment),
                       payflow_events := payflow_events s @
                         [PaymentApproved pid msg_sender n
                            (requiredApprovals (conditions payment))]\<rparr>
            in
            if internal_allConditionsMet now payment then internal_executePayment s1 now pid
            else Inr s1))"

definition cancelPayment :: "PayFlowCore \<Rightarrow> address \<Rightarrow> bytes32 \<Rightarrow> error + PayFlowCore" where
  "cancelPayment s msg_sender pid =
     (if paymentId (payments s pid) \<noteq> pid then Inl (Revert ''Payment not found'')
      else if sender (payments s pid) \<noteq> msg_sender then Inl (Revert ''Not the sender'')
      else if \<not> (payment_status (payments s pid) = CREATED \<or>
                  payment_status (payments s pid) = PENDING)
      then Inl (Revert ''Cannot cancel'')
      else
        bindE (safeTransfer (ledger s) (payment_token (payments s pid)) (core_address s)
                 (sender (payments s pid)) (payment_amount (payments s pid)))
          (\<lambda>l. Inr (s\<lparr>payments := (payments s)
                         (pid := (payments s pid)\<lparr>payment_status := CANCELLED\<rparr>),
                       payflow_events := payflow_events s @ [PaymentCancelled pid msg_sender],
                       ledger := l\<rparr>)))"

subsection \<open>Creation\<close>

text \<open>
  The payment identifier is \<open>keccak256(abi.encodePacked(...))\<close> of fixed-width words; the
  hash is the first argument, on the list of the packed words. \<open>createPayment\<close> assigns the
  conditions and then pushes every approver once more, so the stored approver list holds
  each approver twice. A payment is written onto whatever the mapping holds at its
  identifier: the fields that the function does not assign keep their values.
\<close>

definition createPayment ::
  "(nat list \<Rightarrow> bytes32) \<Rightarrow> PayFlowCore \<Rightarrow> nat \<Rightarrow> address \<Rightarrow> address \<Rightarrow> address \<Rightarrow> nat
     \<Rightarrow> PaymentConditions \<Rightarrow> bytes32 \<Rightarrow> string \<Rightarrow> error + PayFlowCore"
where
  "createPayment keccak s now msg_sender rcp tok amt conds refId memo_text =
     (if paused s then Inl EnforcedPause
      else if rcp = 0 then Inl (Revert ''Invalid recipient'')
      else if rcp = msg_sender then Inl (Revert ''Cannot pay yourself'')
      else if \<not> amt > 0 then Inl (Revert ''Amount must be positive'')
      else if \<not> amt \<le> maxPaymentAmount s then Inl (Revert ''Exceeds max payment'')
      else if \<not> supportedTokens s tok then Inl (Revert ''Token not supported'')
      else
        (let pid = keccak [msg_sender, rcp, tok, amt, now, totalPaymentsCreated s];
             payment = (payments s pid)
               \<lparr>paymentId := pid, sender := msg_sender, recipient := rcp,
                payment_token := tok, payment_amount := amt, targetToken := tok,
                payment_status := CREATED, payment_createdAt := now,
                conditions := conds\<lparr>approvers := approvers conds @ approvers conds\<rparr>,
                referenceId := refId, memo := memo_text\<rparr>
         in
         bindE (safeTransferFrom (ledger s) tok (core_address s) msg_sender (core_address s) amt)
           (\<lambda>l.
             bindE (checked_add (totalPaymentsCreated s) 1)
               (\<lambda>n.
                 let s1 = s\<lparr>payments := (payments s)(pid := payment),
                            paymentIds := paymentIds s @ [pid],
                            userPaymentsSent := (userPaymentsSent s)
                              (msg_sender := userPaymentsSent s msg_sender @ [pid]),
                            userPaymentsReceived := (userPaymentsReceived s)
                              (rcp := userPaymentsReceived s rcp @ [pid]),
                            totalPaymentsCreated := n,
                            payflow_events := payflow_events s @
                              [PaymentCreated pid msg_sender rcp tok amt refId],
                            ledger := l\<rparr>
                 in
                 if internal_canAutoExecute payment then internal_executePayment s1 now pid
                 else Inr (s1\<lparr>payments := (payments s1)
                              (pid := payment\<lparr>payment_status := PENDING\<rparr>)\<rparr>)))))"

definition createCrossBorderPayment ::
  "(nat list \<Rightarrow> bytes32) \<Rightarrow> PayFlowCore \<Rightarrow> nat \<Rightarrow> address \<Rightarrow> address \<Rightarrow> address \<Rightarrow> nat
     \<Rightarrow> address \<Rightarrow> nat \<Rightarrow> PaymentConditions \<Rightarrow> bytes32 \<Rightarrow> string \<Rightarrow> error + PayFlowCore"
where
  "createCrossBorderPayment keccak s now msg_sender rcp sourceToken sourceAmount targetTok
       minTargetAmount conds refId memo_text =
     (if paused s then Inl EnforcedPause
      else if rcp = 0 then Inl (Revert ''Invalid recipient'')
      else if \<not> sourceAmount > 0 then Inl (Revert ''Amount must be positive'')
      else if \<not> supportedTokens s sourceToken then Inl (Revert ''Source token not supported'')
      else if \<not> supportedTokens s targetTok then Inl (Revert ''Target token not supported'')
      else
        (let pid = keccak [msg_sender, rcp, sourceToken, targetTok, sourceAmount, now,
                           totalPaymentsCreated s];
             payment = (payments s pid)
               \<lparr>paymentId := pid, sender := msg_sender, recipient := rcp,
                payment_token := sourceToken, payment_amount := sourceAmount,
                targetToken := targetTok, targetAmount := minTargetAmount,
                payment_status := PENDING, payment_createdAt := now,
                conditions := conds, referenceId := refId, memo := memo_text\<rparr>
         in
         bindE (safeTransferFrom (ledger s) sourceToken (core_address s) msg_sender
                  (core_address s) sourceAmount)
           (\<lambda>l.
             bindE (checked_add (totalPaymentsCreated s) 1)
               (\<lambda>n.
                 Inr (s\<lparr>payments := (payments s)(pid := payment),
                        paymentIds := paymentIds s @ [pid],
                        userPaymentsSent := (userPaymentsSent s)
                          (msg_sender := userPaymentsSent s msg_sender @ [pid]),
                        userPaymentsReceived := (userPaymentsReceived s)
                          (rcp := userPaymentsReceived s rcp @ [pid]),
                        totalPaymentsCreated := n,
                        payflow_events := payflow_events s @
                          [PaymentCreated pid msg_sender rcp sourceToken sourceAmount refId],
                        ledger := l\<rparr>)))))"

subsection \<open>Administration\<close>

definition addSupportedToken :: "PayFlowCore \<Rightarrow> address \<Rightarrow> address \<Rightarrow> error + PayFlowCore" where
  "addSupportedToken s msg_sender tok =
     (if \<not> payflow_hasRole s OPERATOR_ROLE msg_sender then Inl Unauthorized
      else if supportedTokens s tok then Inl (Revert ''Already supported'')
      else Inr (s\<lparr>supportedTokens := (supportedTokens s)(tok := True),
                  tokenList := tokenList s @ [tok]\<rparr>))"

definition setModules ::
  "PayFlowCore \<Rightarrow> address \<Rightarrow> address \<Rightarrow> address \<Rightarrow> address \<Rightarrow> address \<Rightarrow> error + PayFlowCore"
where
  "setModules s msg_sender compliance' oracle' escrow' audit' =
     (if \<not> payflow_hasRole s DEFAULT_ADMIN_ROLE msg_sender then Inl Unauthorized
      else Inr (s\<lparr>complianceEngine := compliance', oracleAggregator := oracle',
                  escrowVault := escrow', auditRegistry := audit'\<rparr>))"

definition setProtocolFee :: "PayFlowCore \<Rightarrow> address \<Rightarrow> nat \<Rightarrow> error + PayFlowCore" where
  "setProtocolFee s msg_sender feeBps =
     (if \<not> payflow_hasRole s TREASURY_ROLE msg_sender then Inl Unauthorized
      else if \<not> feeBps \<le> 100 then Inl (Revert ''Fee too high'')
      else Inr (s\<lparr>protocolFeeBps := feeBps\<rparr>))"

definition setFeeRecipient :: "PayFlowCore \<Rightarrow> address \<Rightarrow> address \<Rightarrow> error + PayFlowCore" where
  "setFeeRecipient s msg_sender rcp =
     (if \<not> payflow_hasRole s TREASURY_ROLE msg_sender then Inl Unauthorized
      else if rcp = 0 then Inl (Revert ''Invalid recipient'')
      else Inr (s\<lparr>feeRecipient := rcp\<rparr>))"

definition pause :: "PayFlowCore \<Rightarrow> address \<Rightarrow> error + PayFlowCore" where
  "pause s msg_sender =
     (if \<not> payflow_hasRole s OPERATOR_ROLE msg_sender then Inl Unauthorized
      else if paused s then Inl EnforcedPause
      else Inr (s\<lparr>paused := True\<rparr>))"

definition unpause :: "PayFlowCore \<Rightarrow> address \<Rightarrow> error + PayFlowCore" where
  "unpause s msg_sender =
     (if \<not> payflow_hasRole s OPERATOR_ROLE msg_sender then Inl Unauthorized
      else if \<not> paused s then Inl ExpectedPause
      else Inr (s\<lparr>paused := False\<rparr>))"

subsection \<open>Sequences of calls\<close>

datatype payflow_call =
    CreatePayment address address address nat PaymentConditions bytes32 string
  | CreateCrossBorderPayment address address address nat address nat PaymentConditions bytes32 string
  | ApprovePayment address bytes32
  | ExecutePayment bytes32
  | CancelPayment address bytes32
  | AddSupportedToken address address
  | SetModules address address address address address
  | SetProtocolFee address nat
  | SetFeeRecipient address address
  | Pause address
  | Unpause address

fun payflow_exec ::
  "(nat list \<Rightarrow> bytes32) \<Rightarrow> nat \<times> payflow_call \<Rightarrow> PayFlowCore \<Rightarrow> PayFlowCore"
where
  "payflow_exec k (now, CreatePayment a rcp tok amt conds refId m) s =
     stays s (createPayment k s now a rcp tok amt conds refId m)"
| "payflow_exec k (now, CreateCrossBorderPayment a rcp tok amt tok' minAmt conds refId m) s =
     stays s (createCrossBorderPayment k s now a rcp tok amt tok' minAmt conds refId m)"
| "payflow_exec k (now, ApprovePayment a pid) s = stays s (approvePayment s now a pid)"
| "payflow_exec k (now, ExecutePayment pid) s = stays s (executePayment s now pid)"
| "payflow_exec k (now, CancelPayment a pid) s = stays s (cancelPayment s a pid)"
| "payflow_exec k (now, AddSupportedToken a tok) s = stays s (addSupportedToken s a tok)"
| "payflow_exec k (now, SetModules a c1 c2 c3 c4) s = stays s (setModules s a c1 c2 c3 c4)"
| "payflow_exec k (now, SetProtocolFee a f) s = stays s (setProtocolFee s a f)"
| "payflow_exec k (now, SetFeeRecipient a r) s = stays s (setFeeRecipient s a r)"
| "payflow_exec k (now, Pause a) s = stays s (pause s a)"
| "payflow_exec k (now, Unpause a) s = stays s (unpause s a)"

fun payflow_run ::
  "(nat list \<Rightarrow> bytes32) \<Rightarrow> (nat \<times> payflow_call) list \<Rightarrow> PayFlowCore \<Rightarrow> PayFlowCore"
where
  "payflow_run k [] s = s"
| "payflow_run k (c # cs) s = payflow_run k cs (payflow_exec k c s)"

text \<open>The number of \<open>PaymentExecuted\<close> events of a payment in an event log.\<close>

definition executions :: "bytes32 \<Rightarrow> payflow_event list \<Rightarrow> nat" where
  "executions pid evs =
     length (filter (\<lambda>e. case e of PaymentExecuted p _ _ _ _ \<Rightarrow> p = pid | _ \<Rightarrow> False) evs)"

section \<open>SmartEscrow\<close>

text \<open>
  The struct \<open>Escrow\<close> (its fields \<open>paymentId\<close>, \<open>token\<close>, \<open>amount\<close>, \<open>status\<close> and
  \<open>createdAt\<close> carry the prefix \<open>escrow_\<close>), the contract's storage, its own address and the
  token ledger.
\<close>

datatype EscrowStatus = ACTIVE | RELEASED | REFUNDED | DISPUTED

datatype ReleaseCondition = TIME_BASED | APPROVAL | ORACLE | MULTI_SIG

record Escrow =
  escrowId :: bytes32
  escrow_paymentId :: bytes32
  depositor :: address
  beneficiary :: address
  arbiter :: address
  escrow_token :: address
  escrow_amount :: nat
  fee :: nat
  escrow_status :: EscrowStatus
  conditionType :: ReleaseCondition
  releaseTime :: nat
  disputeDeadline :: nat
  depositorApproved :: bool
  beneficiaryApproved :: bool
  requiredSignatures :: nat
  signatureCount :: nat
  hasSigned :: "address \<Rightarrow> bool"
  oracleConditionId :: bytes32
  oracleConditionMet :: bool
  escrow_createdAt :: nat
  description :: string

datatype escrow_event =
    EscrowCreated bytes32 bytes32 address address nat
  | EscrowApproved bytes32 address
  | EscrowReleased bytes32 address nat
  | EscrowRefunded bytes32 address nat
  | EscrowDisputed bytes32 address string
  | DisputeResolved bytes32 address address nat

record SmartEscrow =
  escrow_address :: address
  escrow_hasRole :: "role \<Rightarrow> address \<Rightarrow> bool"
  escrows :: "bytes32 \<Rightarrow> Escrow"
  escrowIds :: "bytes32 list"
  userEscrowsAsDepositor :: "address \<Rightarrow> bytes32 list"
  userEscrowsAsBeneficiary :: "address \<Rightarrow> bytes32 list"
  escrowFeeBps :: nat
  escrow_feeRecipient :: address
  payFlowCore :: address
  totalEscrowsCreated :: nat
  totalValueLocked :: nat
  totalReleased :: nat
  escrow_events :: "escrow_event list"
  escrow_ledger :: Ledger

subsection \<open>Creation\<close>




subsection \<open>Approval and release\<close>





subsection \<open>Disputes and refunds\<close>




subsection \<open>Administration\<close>





subsection \<open>Sequences of calls\<close>




text \<open>
  The events that report the escrowed funds leaving the contract: \<open>EscrowReleased\<close>,
  \<open>EscrowRefunded\<close> and \<open>DisputeResolved\<close>, each emitted by the one function that makes the
  transfers. \<open>payouts\<close> counts them for one escrow.
\<close>

definition is_payout :: "bytes32 \<Rightarrow> escrow_event \<Rightarrow> bool" where
  "is_payout eid e =
     (case e of
        EscrowReleased i _ _ \<Rightarrow> i = eid
      | EscrowRefunded i _ _ \<Rightarrow> i = eid
      | DisputeResolved i _ _ _ \<Rightarrow> i = eid
      | _ \<Rightarrow> False)"

definition payouts :: "bytes32 \<Rightarrow> escrow_event list \<Rightarrow> nat" where
  "payouts eid evs = length (filter (is_payout eid) evs)"

section \<open>Notions used in the statements\<close>

subsection \<open>Oracle reports that an aggregation counts\<close>

text \<open>
  A registered oracle's report counts in an aggregation at time \<open>now\<close> when the source is
  active, the report is active, and its age is at most the staleness threshold.
  \<open>fresh_oracles\<close> lists the entries of \<open>activeOracles\<close> whose report counts, in order and with
  repetitions (an oracle that was deactivated and added again stands twice in the array).
  \<open>no_future_report\<close> says that no report that the loop reads is younger than the block:
  the subtraction \<open>block.timestamp - price.timestamp\<close> then does not underflow.
\<close>

definition is_fresh :: "OracleAggregator \<Rightarrow> nat \<Rightarrow> bytes32 \<Rightarrow> address \<Rightarrow> bool" where
  "is_fresh s now pid a \<longleftrightarrow>
     source_isActive (oracleSources s a) \<and> price_isActive (oraclePrices s pid a) \<and>
     timestamp (oraclePrices s pid a) \<le> now \<and>
     now - timestamp (oraclePrices s pid a) \<le> stalenessThreshold s"

definition fresh_oracles :: "OracleAggregator \<Rightarrow> nat \<Rightarrow> bytes32 \<Rightarrow> address list" where
  "fresh_oracles s now pid = filter (is_fresh s now pid) (activeOracles s)"

definition weighted_sum :: "OracleAggregator \<Rightarrow> bytes32 \<Rightarrow> address list \<Rightarrow> nat" where
  "weighted_sum s pid as =
     sum_list (map (\<lambda>a. rate (oraclePrices s pid a) * weight (oracleSources s a)) as)"

definition total_weight :: "OracleAggregator \<Rightarrow> address list \<Rightarrow> nat" where
  "total_weight s as = sum_list (map (\<lambda>a. weight (oracleSources s a)) as)"

definition no_future_report :: "OracleAggregator \<Rightarrow> nat \<Rightarrow> bytes32 \<Rightarrow> bool" where
  "no_future_report s now pid \<longleftrightarrow>
     list_all (\<lambda>a. source_isActive (oracleSources s a) \<and> price_isActive (oraclePrices s pid a)
                    \<longrightarrow> timestamp (oraclePrices s pid a) \<le> now)
       (activeOracles s)"

subsection \<open>The deviation of a submitted rate\<close>

text \<open>
  The distance between the current and the submitted rate, and the deviation in basis
  points, as numbers without a bound: \<open>_calculateDeviation\<close> computes the same in checked
  \<open>uint256\<close> arithmetic.
\<close>

definition rate_difference :: "nat \<Rightarrow> nat \<Rightarrow> nat" where
  "rate_difference oldRate newRate =
     (if oldRate > newRate then oldRate - newRate else newRate - oldRate)"

definition deviation_bps :: "nat \<Rightarrow> nat \<Rightarrow> nat" where
  "deviation_bps oldRate newRate = rate_difference oldRate newRate * 10000 div oldRate"

subsection \<open>The specification's weighted consensus\<close>

text \<open>
  Step 6 of the specification's aggregation, in its words, for comparison with the loop of
  the contract: the effective confidence of a source is its reported confidence at full
  weight while fresh, at 80% past half the staleness window and at 50% past the window,
  less its failure count times a decay constant; the price is the confidence-weighted
  average over the surviving reports. The contract keeps no failure count, so the counts
  and the constant are arguments.
\<close>

definition spec_effective_confidence :: "nat \<Rightarrow> nat \<Rightarrow> nat \<Rightarrow> nat \<Rightarrow> nat \<Rightarrow> nat" where
  "spec_effective_confidence reported age window failures decay =
     (if age > window then reported * 50 div 100
      else if age > window div 2 then reported * 80 div 100
      else reported) - failures * decay"

definition spec_weighted_price ::
  "OracleAggregator \<Rightarrow> nat \<Rightarrow> bytes32 \<Rightarrow> (address \<Rightarrow> nat) \<Rightarrow> nat \<Rightarrow> nat"
where
  "spec_weighted_price s now pid failures decay =
     (let reports =
            map (\<lambda>a. (rate (oraclePrices s pid a),
                       spec_effective_confidence (confidence (oraclePrices s pid a))
                         (now - timestamp (oraclePrices s pid a)) (stalenessThreshold s)
                         (failures a) decay))
              (fresh_oracles s now pid)
      in sum_list (map (\<lambda>(price, conf). price * conf) reports) div
         sum_list (map snd reports))"

subsection \<open>The outcome of a batch update\<close>

text \<open>
  \<open>submitted pid entries\<close> are the (rate, confidence) pairs that a batch submits for the
  pair \<open>pid\<close> with a positive rate, in order; the last of them is what the loop leaves in
  storage. \<open>batch_result\<close> is the state after the loop, written out field by field.
\<close>

definition submitted :: "bytes32 \<Rightarrow> (bytes32 \<times> nat \<times> nat) list \<Rightarrow> (nat \<times> nat) list" where
  "submitted pid entries = map snd (filter (\<lambda>e. fst e = pid \<and> fst (snd e) > 0) entries)"

definition batch_result ::
  "nat \<Rightarrow> address \<Rightarrow> (bytes32 \<times> nat \<times> nat) list \<Rightarrow> OracleAggregator \<Rightarrow> OracleAggregator"
where
  "batch_result now msg_sender entries s =
     s\<lparr>oraclePrices :=
         (\<lambda>p a. if a = msg_sender \<and> pair_isActive (pairs s p) \<and> submitted p entries \<noteq> []
                then \<lparr>rate = fst (last (submitted p entries)), timestamp = now,
                      confidence = snd (last (submitted p entries)), price_isActive = True\<rparr>
                else oraclePrices s p a),
       pairs :=
         (\<lambda>p. if pair_isActive (pairs s p) \<and> submitted p entries \<noteq> []
              then (pairs s p)\<lparr>currentRate := fst (last (submitted p entries)), lastUpdate := now\<rparr>
              else pairs s p)\<rparr>"

subsection \<open>The outcome of a check that the daily limit rejects\<close>


subsection \<open>What an execution pays out\<close>

text \<open>
  The protocol fee of a payment (zero when \<open>protocolFeeBps\<close> is zero), the address that an
  execution pays (the escrow vault when the conditions say \<open>useEscrow\<close>, else the recipient),
  and the transfers that an execution makes, in order: the fee to the fee recipient in
  the payment's token, when a fee is set, and the amount less the fee to the destination
  in the target token. \<open>with_payment\<close> replaces the stored payment by a variant of it.
\<close>

definition protocol_fee :: "PayFlowCore \<Rightarrow> bytes32 \<Rightarrow> nat" where
  "protocol_fee s pid =
     (if protocolFeeBps s > 0
      then payment_amount (payments s pid) * protocolFeeBps s div 10000 else 0)"

definition payout_destination :: "PayFlowCore \<Rightarrow> bytes32 \<Rightarrow> address" where
  "payout_destination s pid =
     (if useEscrow (conditions (payments s pid)) then escrowVault s
      else recipient (payments s pid))"

definition payout_transfers ::
  "PayFlowCore \<Rightarrow> bytes32 \<Rightarrow> (address \<times> address \<times> address \<times> nat) list"
where
  "payout_transfers s pid =
     (if protocolFeeBps s > 0
      then [(payment_token (payments s pid), core_address s, feeRecipient s, protocol_fee s pid)]
      else []) @
     [(targetToken (payments s pid), core_address s, payout_destination s pid,
       payment_amount (payments s pid) - protocol_fee s pid)]"

definition with_payment :: "PayFlowCore \<Rightarrow> bytes32 \<Rightarrow> (Payment \<Rightarrow> Payment) \<Rightarrow> PayFlowCore" where
  "with_payment s pid g = s\<lparr>payments := (payments s)(pid := g (payments s pid))\<rparr>"

subsection \<open>Payment fields that an execution never reads\<close>

text \<open>
  A payment record with other compliance conditions, and one with another expected target
  amount and slippage bound. \<open>unread_by_execution\<close> replaces all five fields at once.
\<close>

definition unread_by_execution ::
  "ComplianceTier \<Rightarrow> ComplianceTier \<Rightarrow> bool \<Rightarrow> nat \<Rightarrow> nat \<Rightarrow> Payment \<Rightarrow> Payment"
where
  "unread_by_execution t1 t2 b slippage expected payment =
     payment\<lparr>targetAmount := expected,
             conditions := (conditions payment)
               \<lparr>requiredSenderTier := t1, requiredRecipientTier := t2,
                requireSanctionsCheck := b, maxSlippage := slippage\<rparr>\<rparr>"

definition with_compliance_conditions ::
  "ComplianceTier \<Rightarrow> ComplianceTier \<Rightarrow> bool \<Rightarrow> Payment \<Rightarrow> Payment"
where
  "with_compliance_conditions t1 t2 b payment =
     payment\<lparr>conditions := (conditions payment)
       \<lparr>requiredSenderTier := t1, requiredRecipientTier := t2, requireSanctionsCheck := b\<rparr>\<rparr>"


subsection \<open>Escrows that are settled\<close>

text \<open>
  The specification's terminal statuses of an escrow. \<open>settles_once s s' eid\<close> relates an earlier
  and a later state of the contract: the creation counter has not decreased, the escrow's
  identifier is the same, a terminal status has stayed, and the number of payout events of
  the escrow has grown by one exactly when the status has become terminal in between.
\<close>

definition terminal :: "EscrowStatus \<Rightarrow> bool" where
  "terminal st \<longleftrightarrow> st = RELEASED \<or> st = REFUNDED"

definition settles_once :: "SmartEscrow \<Rightarrow> SmartEscrow \<Rightarrow> bytes32 \<Rightarrow> bool" where
  "settles_once s s' eid \<longleftrightarrow>
     totalEscrowsCreated s \<le> totalEscrowsCreated s' \<and>
     escrowId (escrows s' eid) = escrowId (escrows s eid) \<and>
     (terminal (escrow_status (escrows s eid)) \<longrightarrow>
        escrow_status (escrows s' eid) = escrow_status (escrows s eid)) \<and>
     payouts eid (escrow_events s') + (if terminal (escrow_status (escrows s eid)) then 1 else 0) =
       payouts eid (escrow_events s) + (if terminal (escrow_status (escrows s' eid)) then 1 else 0)"

section \<open>Example states\<close>

text \<open>Storage that was never written reads as zero.\<close>

definition zero_PriceData :: PriceData where
  "zero_PriceData = \<lparr>rate = 0, timestamp = 0, confidence = 0, price_isActive = False\<rparr>"

definition zero_OracleSource :: OracleSource where
  "zero_OracleSource =
     \<lparr>source_oracle = 0, name = [], weight = 0, source_isActive = False,
      source_lastUpdate = 0, totalUpdates = 0\<rparr>"

definition zero_CurrencyPair :: CurrencyPair where
  "zero_CurrencyPair =
     \<lparr>base = [], quote = [], pairId = 0, pair_isActive = False, currentRate = 0,
      lastUpdate = 0, rateHistory = [], timestamps = [], twapPeriod = 0, maxDeviation = 0,
      circuitBreakerTripped = False\<rparr>"

text \<open>
  An aggregator with the constructor's settings, one pair (identifier 7) at rate 1000, and
  two registered oracles (addresses 10 and 11) of weight 5000 each, which reported 1000
  with confidence 100 and 1030 with confidence 50 at time 900. Address 1 is the oracle
  admin; 10, 11 and 12 may update prices, and 12 is not a registered oracle.
\<close>

definition example_oracle :: OracleAggregator where
  "example_oracle =
     \<lparr>oracle_hasRole =
        (\<lambda>r a. (r = ORACLE_ADMIN \<and> a = 1) \<or>
               (r = PRICE_UPDATER \<and> (a = 10 \<or> a = 11 \<or> a = 12))),
      pairs = (\<lambda>p. zero_CurrencyPair)
        (7 := \<lparr>base = ''USD'', quote = ''EUR'', pairId = 7, pair_isActive = True,
               currentRate = 1000, lastUpdate = 900, rateHistory = [1000], timestamps = [900],
               twapPeriod = 900, maxDeviation = 500, circuitBreakerTripped = False\<rparr>),
      oraclePrices = (\<lambda>p a. zero_PriceData)
        (7 := (\<lambda>a. zero_PriceData)
           (10 := \<lparr>rate = 1000, timestamp = 900, confidence = 100, price_isActive = True\<rparr>,
            11 := \<lparr>rate = 1030, timestamp = 900, confidence = 50, price_isActive = True\<rparr>)),
      oracleSources = (\<lambda>a. zero_OracleSource)
        (10 := \<lparr>source_oracle = 10, name = ''A'', weight = 5000, source_isActive = True,
                source_lastUpdate = 900, totalUpdates = 1\<rparr>,
         11 := \<lparr>source_oracle = 11, name = ''B'', weight = 5000, source_isActive = True,
                source_lastUpdate = 900, totalUpdates = 1\<rparr>),
      activePairs = [7],
      activeOracles = [10, 11],
      stalenessThreshold = 3600,
      defaultTwapPeriod = 900,
      defaultMaxDeviation = 500,
      minOracleCount = 2,
      totalPriceUpdates = 2,
      totalQueries = 0,
      circuitBreakerTriggers = 0,
      oracle_events = []\<rparr>"

text \<open>The same aggregator with the circuit breaker of pair 7 tripped.\<close>

definition tripped_oracle :: OracleAggregator where
  "tripped_oracle =
     example_oracle\<lparr>pairs := (pairs example_oracle)
       (7 := (pairs example_oracle 7)\<lparr>circuitBreakerTripped := True\<rparr>)\<rparr>"

text \<open>
  The aggregator after the admin has deactivated oracle 10 and added it again with the same
  weight: \<open>deactivateOracle\<close> leaves the entry in \<open>activeOracles\<close> and \<open>addOracle\<close> pushes
  another, so the oracle stands twice in the array.
\<close>

definition readded_oracle :: OracleAggregator where
  "readded_oracle =
     example_oracle
       \<lparr>oracleSources := (oracleSources example_oracle)
          (10 := \<lparr>source_oracle = 10, name = ''A'', weight = 5000, source_isActive = True,
                 source_lastUpdate = 0, totalUpdates = 0\<rparr>),
        activeOracles := [10, 11, 10],
        oracle_events := [OracleAdded 10 ''A'' 5000]\<rparr>"

text \<open>The example aggregator after the admin has deactivated oracle 11.\<close>

definition single_oracle :: OracleAggregator where
  "single_oracle =
     example_oracle
       \<lparr>oracleSources := (oracleSources example_oracle)
          (11 := (oracleSources example_oracle 11)\<lparr>source_isActive := False\<rparr>)\<rparr>"

subsection \<open>Compliance examples\<close>

definition zero_EntityProfile :: EntityProfile where
  "zero_EntityProfile =
     \<lparr>entity = 0, tier = NONE, isVerified = False, isSanctioned = False, identityHash = 0,
      jurisdiction = [], isPEP = False, dailyLimit = 0, monthlyLimit = 0, singleTxLimit = 0,
      dailyVolume = 0, monthlyVolume = 0, lastDayReset = 0, lastMonthReset = 0,
      verifiedAt = 0, expiresAt = 0, verifiedBy = 0, riskScore = 0, underReview = False\<rparr>"



subsection \<open>Payment examples\<close>

text \<open>
  A cross-border payment of 1000 units of token 100, to be paid out in token 101, that requires
  institutional parties and a sanctions check, allows no slippage and expects 1000 units of the
  target token; the state after its execution at time 1000; and a compliance engine in which
  the sender is sanctioned.
\<close>

definition zero_PaymentConditions :: PaymentConditions where
  "zero_PaymentConditions =
     \<lparr>requiredSenderTier = NONE, requiredRecipientTier = NONE, requireSanctionsCheck = False,
      validFrom = 0, validUntil = 0, businessHoursOnly = False, maxSlippage = 0,
      requiredApprovals = 0, approvers = [], useEscrow = False, escrowReleaseTime = 0,
      escrowConditionHash = 0\<rparr>"

definition zero_Payment :: Payment where
  "zero_Payment =
     \<lparr>paymentId = 0, sender = 0, recipient = 0, payment_token = 0, payment_amount = 0,
      targetToken = 0, targetAmount = 0, payment_status = CREATED, payment_createdAt = 0,
      executedAt = 0, conditions = zero_PaymentConditions, approvalCount = 0,
      hasApproved = (\<lambda>a. False), referenceId = 0, memo = []\<rparr>"

definition example_ledger :: Ledger where
  "example_ledger =
     \<lparr>balances = (\<lambda>tok holder. 0)
        (100 := (\<lambda>holder. 0)(50 := 10000), 101 := (\<lambda>holder. 0)(50 := 10000)),
      allowances = (\<lambda>tok owner spender. 0),
      transferLog = []\<rparr>"

definition example_core :: PayFlowCore where
  "example_core =
     \<lparr>core_address = 50,
      payflow_hasRole = (\<lambda>r a. a = 2),
      paused = False,
      payments = (\<lambda>p. zero_Payment)
        (41 := \<lparr>paymentId = 41, sender = 60, recipient = 61, payment_token = 100,
                payment_amount = 1000, targetToken = 101, targetAmount = 1000,
                payment_status = PENDING, payment_createdAt = 500, executedAt = 0,
                conditions = zero_PaymentConditions
                  \<lparr>requiredSenderTier := INSTITUTIONAL, requiredRecipientTier := INSTITUTIONAL,
                   requireSanctionsCheck := True, validFrom := 600, validUntil := 5000,
                   requiredApprovals := 2\<rparr>,
                approvalCount = 2, hasApproved = (\<lambda>a. a = 62 \<or> a = 63), referenceId = 9,
                memo = ''invoice''\<rparr>),
      paymentIds = [41],
      userPaymentsSent = (\<lambda>a. [])(60 := [41]),
      userPaymentsReceived = (\<lambda>a. [])(61 := [41]),
      supportedTokens = (\<lambda>tok. tok = 100 \<or> tok = 101),
      tokenList = [100, 101],
      complianceEngine = 70,
      oracleAggregator = 71,
      escrowVault = 72,
      auditRegistry = 0,
      protocolFeeBps = 10,
      feeRecipient = 2,
      maxPaymentAmount = 100000000000000,
      totalPaymentsCreated = 42,
      totalPaymentsExecuted = 0,
      totalVolumeProcessed = 0,
      averageSettlementTime = 0,
      payflow_events = [],
      ledger = example_ledger,
      auditRegistryAccepts = True,
      auditCalls = []\<rparr>"

definition example_core_executed :: PayFlowCore where
  "example_core_executed =
     example_core
       \<lparr>payments := (payments example_core)
          (41 := (payments example_core 41)\<lparr>payment_status := EXECUTED, executedAt := 1000\<rparr>),
        totalPaymentsExecuted := 1,
        totalVolumeProcessed := 1000,
        averageSettlementTime := 500,
        payflow_events :=
          [CrossBorderSettlement 41 100 101 1000 999 (10 ^ 18), PaymentExecuted 41 60 61 999 500],
        ledger := \<lparr>balances = (\<lambda>tok holder. 0)
                     (100 := (\<lambda>holder. 0)(50 := 9999, 2 := 1),
                      101 := (\<lambda>holder. 0)(50 := 9001, 61 := 999)),
                   allowances = (\<lambda>tok owner spender. 0),
                   transferLog = [(100, 50, 2, 1), (101, 50, 61, 999)]\<rparr>\<rparr>"

definition sanctioning_engine :: ComplianceEngine where
  "sanctioning_engine =
     \<lparr>profiles = (\<lambda>a. zero_EntityProfile)(60 := zero_EntityProfile\<lparr>isSanctioned := True\<rparr>),
      travelRuleThreshold = 3000,
      totalChecks = 0,
      totalRejections = 0,
      compliance_events = []\<rparr>"

subsection \<open>Escrow examples\<close>




section \<open>Basic facts\<close>

lemma bindE_Inr [simp]: "bindE (Inr x) f = f x"
  by (simp add: bindE_def)

lemma bindE_Inl [simp]: "bindE (Inl e) f = Inl e"
  by (simp add: bindE_def)

lemma bindE_InrE:
  assumes "bindE m f = Inr y"
  obtains x where "m = Inr x" and "f x = Inr y"
  using assms by (cases m) simp_all

lemma stays_Inl [simp]: "stays s (Inl e) = s"
  by (simp add: stays_def)

lemma stays_Inr [simp]: "stays s (Inr t) = t"
  by (simp add: stays_def)

lemma checked_add_eq_Inr: "checked_add a b = Inr c \<longleftrightarrow> a + b \<le> MAX_UINT256 \<and> c = a + b"
  by (auto simp: checked_add_def)

lemma checked_sub_eq_Inr: "checked_sub a b = Inr c \<longleftrightarrow> b \<le> a \<and> c = a - b"
  by (auto simp: checked_sub_def)

lemma checked_mul_eq_Inr: "checked_mul a b = Inr c \<longleftrightarrow> a * b \<le> MAX_UINT256 \<and> c = a * b"
  by (auto simp: checked_mul_def)

lemma checked_div_eq_Inr: "checked_div a b = Inr c \<longleftrightarrow> b \<noteq> 0 \<and> c = a div b"
  by (auto simp: checked_div_def)

section \<open>OracleAggregator: the circuit breaker\<close>

lemma calculateDeviation_value:
  assumes "oldRate > 0"
  shows "internal_calculateDeviation oldRate newRate =
           (if rate_difference oldRate newRate * 10000 \<le> MAX_UINT256
            then Inr (deviation_bps oldRate newRate) else Inl Panic_arithmetic)"
  using assms
  by (simp add: internal_calculateDeviation_def rate_difference_def deviation_bps_def
        checked_sub_def checked_mul_def checked_div_def)

text \<open>
  C9, as the claim states it, fails on the contract. On the example aggregator (pair 7 at
  rate 1000, \<open>maxDeviation\<close> 500 basis points) oracle 10 submits the rate \<open>2 ^ 255\<close>, a
  \<open>uint256\<close> value that passes every guard of \<open>updatePrice\<close>. Its deviation from the current
  rate exceeds \<open>maxDeviation\<close>, but \<open>_calculateDeviation\<close> multiplies the difference by 10000
  in checked arithmetic: the product does not fit a \<open>uint256\<close>, the call reverts with an
  arithmetic panic, the circuit breaker of the pair is not tripped and the trigger counter
  is not incremented.
\<close>

theorem deviation_overflow_counterexample:
  "oracle_hasRole example_oracle PRICE_UPDATER 10
   \<and> pair_isActive (pairs example_oracle 7)
   \<and> (2::nat) ^ 255 \<le> MAX_UINT256
   \<and> currentRate (pairs example_oracle 7) = 1000
   \<and> maxDeviation (pairs example_oracle 7) = 500
   \<and> deviation_bps (currentRate (pairs example_oracle 7)) (2 ^ 255) > 500
   \<and> updatePrice example_oracle 1000 10 7 (2 ^ 255) 90 = Inl Panic_arithmetic
   \<and> \<not> circuitBreakerTripped
         (pairs (stays example_oracle (updatePrice example_oracle 1000 10 7 (2 ^ 255) 90)) 7)
   \<and> circuitBreakerTriggers
         (stays example_oracle (updatePrice example_oracle 1000 10 7 (2 ^ 255) 90)) = 0"
proof -
  have panic: "updatePrice example_oracle 1000 10 7 (2 ^ 255) 90 = Inl Panic_arithmetic"
    by (simp add: updatePrice_def internal_calculateDeviation_def checked_sub_def
          checked_mul_def example_oracle_def MAX_UINT256_def)
  show ?thesis
    unfolding panic
    by (simp add: example_oracle_def deviation_bps_def rate_difference_def MAX_UINT256_def)
qed

text \<open>
  C9, amended. A call of \<open>updatePrice\<close> that passes the function's own guards (the caller
  holds \<open>PRICE_UPDATER\<close>, the pair is active, the rate is positive, the confidence is at most
  100) on a pair whose \<open>currentRate\<close> is positive, and whose deviation from the submitted
  rate exceeds the pair's \<open>maxDeviation\<close>, has one of two outcomes. When the difference of
  the two rates times 10000 fits a \<open>uint256\<close> and the trigger counter has room, the call
  returns the state in which the pair's circuit breaker is tripped, the trigger counter is
  one higher and the event \<open>CircuitBreakerTripped\<close> is logged; every other part of the state
  is as before: the report is not stored in \<open>oraclePrices\<close>, and \<open>currentRate\<close>,
  \<open>lastUpdate\<close>, \<open>rateHistory\<close> and \<open>timestamps\<close> of the pair are untouched. When the product
  does not fit a \<open>uint256\<close>, or the counter is full, the call reverts with an arithmetic
  panic and nothing changes: the breaker is not tripped.
\<close>

theorem updatePrice_deviation_trips_or_panics:
  assumes "oracle_hasRole s PRICE_UPDATER msg_sender"
      and "pair_isActive (pairs s pid)"
      and "r > 0"
      and "c \<le> 100"
      and "currentRate (pairs s pid) > 0"
      and "deviation_bps (currentRate (pairs s pid)) r > maxDeviation (pairs s pid)"
  shows "(rate_difference (currentRate (pairs s pid)) r * 10000 \<le> MAX_UINT256 \<and>
          circuitBreakerTriggers s < MAX_UINT256 \<longrightarrow>
            updatePrice s now msg_sender pid r c =
              Inr (s\<lparr>pairs := (pairs s)(pid := (pairs s pid)\<lparr>circuitBreakerTripped := True\<rparr>),
                     circuitBreakerTriggers := circuitBreakerTriggers s + 1,
                     oracle_events := oracle_events s @
                       [CircuitBreakerTripped pid (currentRate (pairs s pid)) r
                          (deviation_bps (currentRate (pairs s pid)) r)]\<rparr>))
       \<and> (MAX_UINT256 < rate_difference (currentRate (pairs s pid)) r * 10000 \<or>
          MAX_UINT256 \<le> circuitBreakerTriggers s \<longrightarrow>
            updatePrice s now msg_sender pid r c = Inl Panic_arithmetic \<and>
            stays s (updatePrice s now msg_sender pid r c) = s)"
  using assms
  by (auto simp: updatePrice_def calculateDeviation_value checked_add_def)

theorem updatePrice_deviation_witness:
  "deviation_bps (currentRate (pairs example_oracle 7)) 2000 = 10000
   \<and> maxDeviation (pairs example_oracle 7) = 500
   \<and> updatePrice example_oracle 1000 10 7 2000 90 =
       Inr (example_oracle
              \<lparr>pairs := (pairs example_oracle)
                 (7 := (pairs example_oracle 7)\<lparr>circuitBreakerTripped := True\<rparr>),
               circuitBreakerTriggers := 1,
               oracle_events := [CircuitBreakerTripped 7 1000 2000 10000]\<rparr>)
   \<and> updatePrice example_oracle 1000 10 7 (2 ^ 255) 90 = Inl Panic_arithmetic"
proof -
  have role: "oracle_hasRole example_oracle PRICE_UPDATER 10"
    and active: "pair_isActive (pairs example_oracle 7)"
    and pos: "currentRate (pairs example_oracle 7) > 0"
    and room: "circuitBreakerTriggers example_oracle < MAX_UINT256"
    by (simp_all add: example_oracle_def MAX_UINT256_def)
  have facts:
    "currentRate (pairs example_oracle 7) = 1000"
    "maxDeviation (pairs example_oracle 7) = 500"
    "circuitBreakerTriggers example_oracle = 0"
    "oracle_events example_oracle = []"
    "deviation_bps 1000 2000 = 10000"
    by (simp_all add: example_oracle_def deviation_bps_def rate_difference_def)
  have guards: "(2000::nat) > 0" "(2::nat) ^ 255 > 0" "(90::nat) \<le> 100"
    by simp_all
  have dev1: "maxDeviation (pairs example_oracle 7)
                < deviation_bps (currentRate (pairs example_oracle 7)) 2000"
    and small: "rate_difference (currentRate (pairs example_oracle 7)) 2000 * 10000
                  \<le> MAX_UINT256"
    by (simp_all add: example_oracle_def deviation_bps_def rate_difference_def MAX_UINT256_def)
  have dev2: "maxDeviation (pairs example_oracle 7)
                < deviation_bps (currentRate (pairs example_oracle 7)) (2 ^ 255)"
    and big: "MAX_UINT256
                < rate_difference (currentRate (pairs example_oracle 7)) (2 ^ 255) * 10000"
    by (simp_all add: example_oracle_def deviation_bps_def rate_difference_def MAX_UINT256_def)
  from updatePrice_deviation_trips_or_panics
         [OF role active guards(1) guards(3) pos dev1, of 1000] small room
  have trips: "updatePrice example_oracle 1000 10 7 2000 90 =
       Inr (example_oracle
              \<lparr>pairs := (pairs example_oracle)
                 (7 := (pairs example_oracle 7)\<lparr>circuitBreakerTripped := True\<rparr>),
               circuitBreakerTriggers := circuitBreakerTriggers example_oracle + 1,
               oracle_events := oracle_events example_oracle @
                 [CircuitBreakerTripped 7 (currentRate (pairs example_oracle 7)) 2000
                    (deviation_bps (currentRate (pairs example_oracle 7)) 2000)]\<rparr>)"
    by blast
  from updatePrice_deviation_trips_or_panics
         [OF role active guards(2) guards(3) pos dev2, of 1000] big
  have panics: "updatePrice example_oracle 1000 10 7 (2 ^ 255) 90 = Inl Panic_arithmetic"
    by blast
  show ?thesis
    unfolding trips panics by (simp add: facts)
qed

subsection \<open>What the history trimming and the update leave alone\<close>

lemma shift_loop_frame:
  "shift_loop n j i p = Inr p' \<Longrightarrow>
     p' = p\<lparr>rateHistory := rateHistory p', timestamps := timestamps p'\<rparr>"
proof (induction n arbitrary: j p)
  case 0
  then show ?case by simp
next
  case (Suc n)
  from Suc.prems have
    step: "shift_loop n (j + 1) i
       (p\<lparr>rateHistory := (rateHistory p)[j := rateHistory p ! (j + i)],
          timestamps := (timestamps p)[j := timestamps p ! (j + i)]\<rparr>) = Inr p'"
    by (simp split: if_splits)
  from Suc.IH [OF step] show ?case by simp
qed

lemma pop_loop_frame:
  "pop_loop n p = Inr p' \<Longrightarrow>
     p' = p\<lparr>rateHistory := rateHistory p', timestamps := timestamps p'\<rparr>"
proof (induction n arbitrary: p)
  case 0
  then show ?case by simp
next
  case (Suc n)
  from Suc.prems have
    step: "pop_loop n (p\<lparr>rateHistory := butlast (rateHistory p),
                          timestamps := butlast (timestamps p)\<rparr>) = Inr p'"
    by (simp split: if_splits)
  from Suc.IH [OF step] show ?case by simp
qed

lemma trimHistory_frame:
  assumes "internal_trimHistory now p = Inr p'"
  shows "p' = p\<lparr>rateHistory := rateHistory p', timestamps := timestamps p'\<rparr>"
proof -
  from assms obtain cutoff where
    body: "(let i = first_within (timestamps p) cutoff 0 in
            if i > 0 \<and> length (rateHistory p) > 100 then
              bindE (checked_sub (length (rateHistory p)) i)
                (\<lambda>newLength. bindE (shift_loop newLength 0 i p) (pop_loop i))
            else Inr p) = Inr p'"
    unfolding internal_trimHistory_def by (elim bindE_InrE)
  show ?thesis
  proof (cases "first_within (timestamps p) cutoff 0 > 0 \<and> length (rateHistory p) > 100")
    case False
    with body have "p' = p" by (auto simp: Let_def)
    then show ?thesis by simp
  next
    case True
    with body obtain n q where
      q: "shift_loop n 0 (first_within (timestamps p) cutoff 0) p = Inr q" and
      p': "pop_loop (first_within (timestamps p) cutoff 0) q = Inr p'"
      by (auto simp: Let_def elim!: bindE_InrE)
    have "q = p\<lparr>rateHistory := rateHistory q, timestamps := timestamps q\<rparr>"
      by (rule shift_loop_frame [OF q])
    moreover have "p' = q\<lparr>rateHistory := rateHistory p', timestamps := timestamps p'\<rparr>"
      by (rule pop_loop_frame [OF p'])
    ultimately have "p' = (p\<lparr>rateHistory := rateHistory q, timestamps := timestamps q\<rparr>)
                            \<lparr>rateHistory := rateHistory p', timestamps := timestamps p'\<rparr>"
      by simp
    then show ?thesis by simp
  qed
qed

lemma trimHistory_tripped:
  "internal_trimHistory now p = Inr p' \<Longrightarrow> circuitBreakerTripped p' = circuitBreakerTripped p"
  by (drule trimHistory_frame) (erule ssubst, simp)

lemma updatePrice_store_breaker:
  assumes "updatePrice_store s now a pid r c = Inr s'"
  shows "circuitBreakerTripped (pairs s' q) = circuitBreakerTripped (pairs s q)
         \<and> oracle_hasRole s' = oracle_hasRole s
         \<and> circuitBreakerTriggers s' = circuitBreakerTriggers s
         \<and> oracle_events s' = oracle_events s @ [PriceUpdated pid a r now]"
  using assms unfolding updatePrice_store_def Let_def
  apply (elim bindE_InrE)
  apply (drule trimHistory_tripped)
  apply (cases "q = pid")
   apply auto
  done

lemma updatePrice_tripped:
  assumes "updatePrice s now a pid r c = Inr s'" and "circuitBreakerTripped (pairs s q)"
  shows "circuitBreakerTripped (pairs s' q)"
  using assms
  by (auto simp: updatePrice_def split: if_splits elim!: bindE_InrE
           dest: updatePrice_store_breaker)

lemma updatePrice_roles:
  assumes "updatePrice s now a pid r c = Inr s'"
  shows "oracle_hasRole s' = oracle_hasRole s"
  using assms
  by (auto simp: updatePrice_def split: if_splits elim!: bindE_InrE
           dest: updatePrice_store_breaker)

subsection \<open>The batch loop\<close>

lemma batch_loop_append:
  "batch_loop now a (xs @ ys) s = batch_loop now a ys (batch_loop now a xs s)"
  by (induction xs arbitrary: s) simp_all

lemma submitted_snoc:
  "submitted p (es @ [e]) =
     (if fst e = p \<and> fst (snd e) > 0 then submitted p es @ [snd e] else submitted p es)"
  by (simp add: submitted_def)

lemma batch_step_frame:
  "batch_step now a e s = s\<lparr>oraclePrices := oraclePrices (batch_step now a e s),
                              pairs := pairs (batch_step now a e s)\<rparr>"
  by (cases e) (simp add: batch_step_def)

lemma batch_loop_frame:
  "batch_loop now a es s = s\<lparr>oraclePrices := oraclePrices (batch_loop now a es s),
                               pairs := pairs (batch_loop now a es s)\<rparr>"
proof (induction es arbitrary: s)
  case Nil
  show ?case by simp
next
  case (Cons e es)
  show ?case
    by (subst (1) batch_loop.simps, subst Cons.IH, subst (1) batch_step_frame) simp
qed

lemma batch_step_isActive:
  "pair_isActive (pairs (batch_step now a e s) q) = pair_isActive (pairs s q)"
  by (cases e) (simp add: batch_step_def)

lemma batch_loop_isActive:
  "pair_isActive (pairs (batch_loop now a es s) q) = pair_isActive (pairs s q)"
  by (induction es arbitrary: s) (simp_all add: batch_step_isActive)

lemma batch_loop_pairs:
  "pairs (batch_loop now a es s) p =
     (if pair_isActive (pairs s p) \<and> submitted p es \<noteq> []
      then (pairs s p)\<lparr>currentRate := fst (last (submitted p es)), lastUpdate := now\<rparr>
      else pairs s p)"
proof (induction es rule: rev_induct)
  case Nil
  show ?case by (simp add: submitted_def)
next
  case (snoc e es)
  obtain q r c where e: "e = (q, r, c)" by (cases e) auto
  show ?case
    by (simp add: batch_loop_append e batch_step_def snoc.IH batch_loop_isActive submitted_snoc)
qed

lemma batch_loop_oraclePrices:
  "oraclePrices (batch_loop now a es s) p b =
     (if b = a \<and> pair_isActive (pairs s p) \<and> submitted p es \<noteq> []
      then \<lparr>rate = fst (last (submitted p es)), timestamp = now,
            confidence = snd (last (submitted p es)), price_isActive = True\<rparr>
      else oraclePrices s p b)"
proof (induction es arbitrary: p b rule: rev_induct)
  case Nil
  show ?case by (simp add: submitted_def)
next
  case (snoc e es)
  obtain q r c where e: "e = (q, r, c)" by (cases e) auto
  show ?case
    by (auto simp add: batch_loop_append e batch_step_def snoc.IH batch_loop_isActive
          submitted_snoc)
qed

lemma batch_loop_result: "batch_loop now a es s = batch_result now a es s"
  by (subst batch_loop_frame)
     (simp add: batch_result_def batch_loop_pairs batch_loop_oraclePrices fun_eq_iff)

lemma batchUpdatePrices_breaker:
  assumes "batchUpdatePrices s now a ps rs cs = Inr s'"
  shows "circuitBreakerTripped (pairs s' q) = circuitBreakerTripped (pairs s q)
         \<and> oracle_hasRole s' = oracle_hasRole s"
  using assms
  by (auto simp: batchUpdatePrices_def Let_def batch_loop_result batch_result_def
           split: if_splits elim!: bindE_InrE)

text \<open>
  C10. A batch update by a caller that holds \<open>PRICE_UPDATER\<close>, with three arrays of one
  length (and room in the update counter), returns the state \<open>batch_result\<close> with the
  counter raised by the number of entries. In that state a pair that is active and for
  which the batch holds an entry with a positive rate has \<open>currentRate\<close> equal to the rate of
  the last such entry and \<open>lastUpdate\<close> equal to the block time, and the caller's stored
  report for the pair is that entry with the confidence as submitted, whatever its value;
  every other pair and report is as before. Nothing else changes: no pair's
  \<open>rateHistory\<close>, \<open>timestamps\<close> or \<open>circuitBreakerTripped\<close>, nor the trigger counter or the
  event log. No deviation is computed and no aggregation over the oracles is run.
\<close>

theorem batchUpdatePrices_sets_rate_directly:
  assumes "oracle_hasRole s PRICE_UPDATER msg_sender"
      and "length pairIds = length rates"
      and "length pairIds = length confidences"
      and "totalPriceUpdates s + length pairIds \<le> MAX_UINT256"
  shows "batchUpdatePrices s now msg_sender pairIds rates confidences =
           Inr ((batch_result now msg_sender (zip pairIds (zip rates confidences)) s)
                  \<lparr>totalPriceUpdates := totalPriceUpdates s + length pairIds\<rparr>)"
  using assms
  by (simp add: batchUpdatePrices_def batch_loop_result checked_add_def Let_def batch_result_def)

theorem batchUpdatePrices_witness:
  "oracle_hasRole example_oracle PRICE_UPDATER 12
   \<and> batchUpdatePrices example_oracle 1000 12 [7, 7, 8] [5000, 2000, 3] [250, 300, 10] =
       Inr (example_oracle
              \<lparr>oraclePrices := (oraclePrices example_oracle)
                 (7 := (oraclePrices example_oracle 7)
                    (12 := \<lparr>rate = 2000, timestamp = 1000, confidence = 300,
                            price_isActive = True\<rparr>)),
               pairs := (pairs example_oracle)
                 (7 := (pairs example_oracle 7)\<lparr>currentRate := 2000, lastUpdate := 1000\<rparr>),
               totalPriceUpdates := 5\<rparr>)"
  using batchUpdatePrices_sets_rate_directly
          [of example_oracle 12 "[7, 7, 8]" "[5000, 2000, 3]" "[250, 300, 10]" 1000]
  by (simp add: example_oracle_def batch_result_def submitted_def MAX_UINT256_def
        zero_CurrencyPair_def fun_eq_iff)

subsection \<open>Sequences of calls and the circuit breaker\<close>

lemma oracle_exec_roles: "oracle_hasRole (oracle_exec k tc s) = oracle_hasRole s"
proof -
  obtain now c where tc: "tc = (now, c)" by (cases tc) auto
  show ?thesis
  proof (cases c)
    case (UpdatePrice a pid r cf)
    then show ?thesis using tc
      by (cases "updatePrice s now a pid r cf") (simp_all add: updatePrice_roles)
  next
    case (BatchUpdatePrices a ps rs cs)
    then show ?thesis using tc
      by (cases "batchUpdatePrices s now a ps rs cs") (simp_all add: batchUpdatePrices_breaker)
  qed (simp_all add: tc addPair_def internal_addPair_def addOracle_def updateOracleWeight_def
         deactivateOracle_def resetCircuitBreaker_def setMaxDeviation_def
         setStalenessThreshold_def setMinOracleCount_def setTwapPeriod_def Let_def)
qed

lemma oracle_exec_tripped:
  assumes "circuitBreakerTripped (pairs s pid)"
      and "\<forall>a. c = ResetCircuitBreaker a pid \<longrightarrow> \<not> oracle_hasRole s ORACLE_ADMIN a"
  shows "circuitBreakerTripped (pairs (oracle_exec k (now, c) s) pid)"
proof (cases c)
  case (UpdatePrice a p r cf)
  then show ?thesis using assms(1)
    by (cases "updatePrice s now a p r cf") (simp_all add: updatePrice_tripped)
next
  case (BatchUpdatePrices a ps rs cs)
  then show ?thesis using assms(1)
    by (cases "batchUpdatePrices s now a ps rs cs") (simp_all add: batchUpdatePrices_breaker)
qed (use assms in \<open>auto simp add: addPair_def internal_addPair_def addOracle_def
       updateOracleWeight_def deactivateOracle_def resetCircuitBreaker_def setMaxDeviation_def
       setStalenessThreshold_def setMinOracleCount_def setTwapPeriod_def Let_def\<close>)

lemma oracle_run_tripped:
  assumes "circuitBreakerTripped (pairs s pid)"
      and "\<forall>tc \<in> set cs. \<forall>a. snd tc = ResetCircuitBreaker a pid \<longrightarrow>
             \<not> oracle_hasRole s ORACLE_ADMIN a"
  shows "circuitBreakerTripped (pairs (oracle_run k cs s) pid)"
  using assms
proof (induction cs arbitrary: s)
  case Nil
  then show ?case by simp
next
  case (Cons tc cs)
  obtain now c where tc: "tc = (now, c)" by (cases tc) auto
  have "circuitBreakerTripped (pairs (oracle_exec k tc s) pid)"
    unfolding tc using Cons.prems tc by (intro oracle_exec_tripped) auto
  then show ?case
    using Cons.IH [of "oracle_exec k tc s"] Cons.prems(2) by (simp add: oracle_exec_roles)
qed

text \<open>
  C8. Once the circuit breaker of a pair is tripped, it stays tripped through every
  sequence of calls of the contract's external functions (price updates, batch updates,
  rate queries and conversions, and every administrative function), made by any callers
  at any block times, as long as the sequence holds no \<open>resetCircuitBreaker\<close> for that pair
  by a holder of \<open>ORACLE_ADMIN\<close>. A \<open>resetCircuitBreaker\<close> by a caller without the role reverts;
  by a holder of the role it clears the breaker.
\<close>

theorem circuit_breaker_reset_only_by_admin:
  assumes "circuitBreakerTripped (pairs s pid)"
      and "\<forall>tc \<in> set cs. \<forall>a. snd tc = ResetCircuitBreaker a pid \<longrightarrow>
             \<not> oracle_hasRole s ORACLE_ADMIN a"
  shows "circuitBreakerTripped (pairs (oracle_run k cs s) pid)
       \<and> (\<forall>a. \<not> oracle_hasRole s ORACLE_ADMIN a \<longrightarrow>
              resetCircuitBreaker s a pid = Inl Unauthorized)
       \<and> (\<forall>a. oracle_hasRole s ORACLE_ADMIN a \<longrightarrow>
              \<not> circuitBreakerTripped (pairs (stays s (resetCircuitBreaker s a pid)) pid))"
  using assms by (auto simp: oracle_run_tripped resetCircuitBreaker_def)

theorem circuit_breaker_witness:
  "circuitBreakerTripped (pairs tripped_oracle 7)
   \<and> circuitBreakerTripped
       (pairs (oracle_run (\<lambda>x. 0)
                 [(1000, UpdatePrice 10 7 1001 90),
                  (1001, BatchUpdatePrices 11 [7] [1002] [80]),
                  (1002, GetRate 7),
                  (1003, Convert 7 5 False),
                  (1004, SetMaxDeviation 1 7 10000),
                  (1005, ResetCircuitBreaker 12 7)]
                 tripped_oracle) 7)
   \<and> resetCircuitBreaker tripped_oracle 12 7 = Inl Unauthorized
   \<and> \<not> circuitBreakerTripped
         (pairs (stays tripped_oracle (resetCircuitBreaker tripped_oracle 1 7)) 7)"
  using circuit_breaker_reset_only_by_admin
          [of tripped_oracle 7
              "[(1000, UpdatePrice 10 7 1001 90),
                (1001, BatchUpdatePrices 11 [7] [1002] [80]),
                (1002, GetRate 7),
                (1003, Convert 7 5 False),
                (1004, SetMaxDeviation 1 7 10000),
                (1005, ResetCircuitBreaker 12 7)]"
              "\<lambda>x. 0"]
  by (simp add: tripped_oracle_def example_oracle_def)

section \<open>OracleAggregator: the aggregated rate\<close>

lemma aggregate_loop_value:
  assumes "list_all (\<lambda>a. source_isActive (oracleSources s a) \<and>
                         price_isActive (oraclePrices s pid a)
                         \<longrightarrow> timestamp (oraclePrices s pid a) \<le> now) as"
      and "ws + weighted_sum s pid (filter (is_fresh s now pid) as) \<le> MAX_UINT256"
      and "tw + total_weight s (filter (is_fresh s now pid) as) \<le> MAX_UINT256"
      and "vo + length (filter (is_fresh s now pid) as) \<le> MAX_UINT256"
  shows "aggregate_loop s now pid as (ws, tw, vo) =
           Inr (ws + weighted_sum s pid (filter (is_fresh s now pid) as),
                tw + total_weight s (filter (is_fresh s now pid) as),
                vo + length (filter (is_fresh s now pid) as))"
  using assms
proof (induction as arbitrary: ws tw vo)
  case Nil
  then show ?case by (simp add: weighted_sum_def total_weight_def)
next
  case (Cons a as)
  from Cons.prems(1) have
    rest: "list_all (\<lambda>a. source_isActive (oracleSources s a) \<and>
                         price_isActive (oraclePrices s pid a)
                         \<longrightarrow> timestamp (oraclePrices s pid a) \<le> now) as"
    by simp
  show ?case
  proof (cases "is_fresh s now pid a")
    case False
    with Cons.prems have
      skip: "aggregate_loop s now pid (a # as) (ws, tw, vo) =
             aggregate_loop s now pid as (ws, tw, vo)"
      by (auto simp: is_fresh_def checked_sub_def)
    from False Cons.prems show ?thesis
      unfolding skip by (simp add: Cons.IH)
  next
    case True
    let ?p = "rate (oraclePrices s pid a) * weight (oracleSources s a)"
    let ?w = "weight (oracleSources s a)"
    from True Cons.prems have
      b1: "ws + ?p + weighted_sum s pid (filter (is_fresh s now pid) as) \<le> MAX_UINT256" and
      b2: "tw + ?w + total_weight s (filter (is_fresh s now pid) as) \<le> MAX_UINT256" and
      b3: "vo + 1 + length (filter (is_fresh s now pid) as) \<le> MAX_UINT256"
      by (simp_all add: weighted_sum_def total_weight_def)
    from True b1 b2 b3 have
      step: "aggregate_loop s now pid (a # as) (ws, tw, vo) =
             aggregate_loop s now pid as (ws + ?p, tw + ?w, vo + 1)"
      by (simp add: is_fresh_def checked_sub_def checked_mul_def checked_add_def)
    show ?thesis
      unfolding step using True Cons.IH [OF rest b1 b2 b3]
      by (simp add: weighted_sum_def total_weight_def)
  qed
qed

lemma example_fresh: "fresh_oracles example_oracle 1000 7 = [10, 11]"
  by (simp add: fresh_oracles_def is_fresh_def example_oracle_def)

lemma example_stale: "fresh_oracles example_oracle 10000 7 = []"
  by (simp add: fresh_oracles_def is_fresh_def example_oracle_def)

lemma example_no_future:
  "no_future_report example_oracle 1000 7" "no_future_report example_oracle 10000 7"
  by (simp_all add: no_future_report_def example_oracle_def)

lemma stale_update:
  "updatePrice example_oracle 10000 12 7 1001 90 =
     Inr (example_oracle
            \<lparr>oraclePrices := (oraclePrices example_oracle)
               (7 := (oraclePrices example_oracle 7)
                  (12 := \<lparr>rate = 1001, timestamp = 10000, confidence = 90,
                          price_isActive = True\<rparr>)),
             oracleSources := (oracleSources example_oracle)
               (12 := zero_OracleSource\<lparr>source_lastUpdate := 10000, totalUpdates := 1\<rparr>),
             pairs := (pairs example_oracle)
               (7 := (pairs example_oracle 7)
                  \<lparr>currentRate := 1000, lastUpdate := 10000,
                   rateHistory := [1000, 1000], timestamps := [900, 10000]\<rparr>),
             totalPriceUpdates := 3,
             oracle_events := [PriceUpdated 7 12 1001 10000]\<rparr>)"
  by (simp add: updatePrice_def updatePrice_store_def internal_calculateDeviation_def
        internal_calculateAggregatedRate_def internal_trimHistory_def
        example_oracle_def checked_sub_def checked_mul_def checked_add_def
        checked_div_def MAX_UINT256_def Let_def zero_OracleSource_def)

lemma two_source_quote:
  "getRate example_oracle 1000 7 =
     Inr \<lparr>spotRate = 1000, twapRate = 1000, response_confidence = 75,
          response_timestamp = 900, isStale = False, circuitBreakerActive = False\<rparr>"
  by (simp add: getRate_def internal_getRate_def internal_calculateTWAP_def
        internal_calculateConfidence_def example_oracle_def checked_sub_def checked_add_def
        checked_div_def MAX_UINT256_def numeral_2_eq_2 [symmetric])

text \<open>
  C4, as the claim states it, fails on the contract. With every registered source stale
  (time 10000, reports of time 900, threshold 3600) an update by a caller that is no
  registered oracle runs the aggregation over zero fresh reports: the rate stays at the
  last-known 1000, and nothing is signalled. The circuit breaker is not tripped, the
  trigger counter stays 0 and the only event is \<open>PriceUpdated\<close>. With two fresh sources
  (time 1000), fewer than 3, the quote that \<open>getRate\<close> returns has no flag set.
\<close>

theorem no_emergency_trigger_counterexample:
  "fresh_oracles example_oracle 10000 7 = []
   \<and> fresh_oracles (stays example_oracle (updatePrice example_oracle 10000 12 7 1001 90))
        10000 7 = []
   \<and> currentRate (pairs (stays example_oracle
        (updatePrice example_oracle 10000 12 7 1001 90)) 7) = 1000
   \<and> \<not> circuitBreakerTripped (pairs (stays example_oracle
        (updatePrice example_oracle 10000 12 7 1001 90)) 7)
   \<and> circuitBreakerTriggers (stays example_oracle
        (updatePrice example_oracle 10000 12 7 1001 90)) = 0
   \<and> oracle_events (stays example_oracle
        (updatePrice example_oracle 10000 12 7 1001 90)) = [PriceUpdated 7 12 1001 10000]
   \<and> length (fresh_oracles example_oracle 1000 7) = 2
   \<and> getRate example_oracle 1000 7 =
       Inr \<lparr>spotRate = 1000, twapRate = 1000, response_confidence = 75,
            response_timestamp = 900, isStale = False, circuitBreakerActive = False\<rparr>"
  by (simp add: stale_update example_stale example_fresh two_source_quote)
     (simp add: fresh_oracles_def is_fresh_def example_oracle_def)

lemma fresh_oracles_distinct:
  assumes "distinct (activeOracles s)"
  shows "length (fresh_oracles s now pid) =
           card {a \<in> set (activeOracles s). is_fresh s now pid a}"
    and "weighted_sum s pid (fresh_oracles s now pid) =
           (\<Sum>a \<in> {a \<in> set (activeOracles s). is_fresh s now pid a}.
              rate (oraclePrices s pid a) * weight (oracleSources s a))"
    and "total_weight s (fresh_oracles s now pid) =
           (\<Sum>a \<in> {a \<in> set (activeOracles s). is_fresh s now pid a}.
              weight (oracleSources s a))"
proof -
  from assms have d: "distinct (fresh_oracles s now pid)"
    by (simp add: fresh_oracles_def)
  have e: "set (fresh_oracles s now pid) = {a \<in> set (activeOracles s). is_fresh s now pid a}"
    by (simp add: fresh_oracles_def)
  from d e show "length (fresh_oracles s now pid) =
           card {a \<in> set (activeOracles s). is_fresh s now pid a}"
    by (metis distinct_card)
  from d e show "weighted_sum s pid (fresh_oracles s now pid) =
           (\<Sum>a \<in> {a \<in> set (activeOracles s). is_fresh s now pid a}.
              rate (oraclePrices s pid a) * weight (oracleSources s a))"
    unfolding weighted_sum_def by (metis sum_list_distinct_conv_sum_set)
  from d e show "total_weight s (fresh_oracles s now pid) =
           (\<Sum>a \<in> {a \<in> set (activeOracles s). is_fresh s now pid a}.
              weight (oracleSources s a))"
    unfolding total_weight_def by (metis sum_list_distinct_conv_sum_set)
qed

lemma readded_reached:
  "oracle_run k [(950, DeactivateOracle 1 10), (960, AddOracle 1 10 ''A'' 5000)] example_oracle =
     readded_oracle"
  by (simp add: deactivateOracle_def addOracle_def readded_oracle_def example_oracle_def)

lemma readded_fresh:
  "fresh_oracles readded_oracle 1000 7 = [10, 11, 10]"
  "no_future_report readded_oracle 1000 7"
  "minOracleCount readded_oracle = 2"
  "currentRate (pairs readded_oracle 7) = 1000"
  "weighted_sum readded_oracle 7 [10, 11, 10] = 15150000"
  "total_weight readded_oracle [10, 11, 10] = 15000"
  by (simp_all add: fresh_oracles_def is_fresh_def no_future_report_def weighted_sum_def
        total_weight_def readded_oracle_def example_oracle_def)

lemma single_reached:
  "oracle_run k [(950, DeactivateOracle 1 11)] example_oracle = single_oracle"
  by (simp add: deactivateOracle_def single_oracle_def example_oracle_def)

lemma single_fresh:
  "fresh_oracles single_oracle 1000 7 = [10]"
  "no_future_report single_oracle 1000 7"
  "minOracleCount single_oracle = 2"
  "activeOracles single_oracle = [10, 11]"
  "currentRate (pairs single_oracle 7) = 1000"
  "weight (oracleSources single_oracle 10) = 5000"
  "rate (oraclePrices single_oracle 7 10) = 1000"
  "is_fresh single_oracle 1000 7 10"
  "\<not> is_fresh single_oracle 1000 7 11"
  by (simp_all add: fresh_oracles_def is_fresh_def no_future_report_def single_oracle_def
        example_oracle_def)

text \<open>
  C4, amended. The aggregation counts the entries of the array \<open>activeOracles\<close> whose source
  is active and whose report on the pair is active and no older than the staleness
  threshold; an oracle that was deactivated and added again stands twice in the array and
  is counted twice, and when no address stands twice in the array the count is the number
  of registered oracles with such a report. When the aggregation reads no report from the
  future and its sums fit a \<open>uint256\<close>, and fewer than \<open>minOracleCount\<close> entries count (2 in
  the constructor, set by the admin), or the weights of the counted entries sum to zero (so
  in particular when no fresh report remains), the aggregated rate is the pair's last-known
  \<open>currentRate\<close>. The quote has no reliability flag, and the part of \<open>updatePrice\<close> that runs
  the aggregation signals nothing: it leaves the pair's circuit breaker and the trigger
  counter as they were and logs \<open>PriceUpdated\<close> alone.
\<close>

theorem aggregation_falls_back_silently:
  assumes "no_future_report s now pid"
      and "weighted_sum s pid (fresh_oracles s now pid) \<le> MAX_UINT256"
      and "total_weight s (fresh_oracles s now pid) \<le> MAX_UINT256"
      and "length (fresh_oracles s now pid) \<le> MAX_UINT256"
      and "length (fresh_oracles s now pid) < minOracleCount s \<or>
           total_weight s (fresh_oracles s now pid) = 0"
  shows "internal_calculateAggregatedRate s now pid = Inr (currentRate (pairs s pid))
       \<and> (\<forall>a r c s'. updatePrice_store s now a pid r c = Inr s' \<longrightarrow>
             circuitBreakerTripped (pairs s' pid) = circuitBreakerTripped (pairs s pid) \<and>
             circuitBreakerTriggers s' = circuitBreakerTriggers s \<and>
             oracle_events s' = oracle_events s @ [PriceUpdated pid a r now])
       \<and> (distinct (activeOracles s) \<longrightarrow>
             length (fresh_oracles s now pid) =
               card {a \<in> set (activeOracles s). is_fresh s now pid a})"
proof -
  from assms aggregate_loop_value [of s pid now "activeOracles s" 0 0 0]
  have "internal_calculateAggregatedRate s now pid = Inr (currentRate (pairs s pid))"
    by (auto simp add: internal_calculateAggregatedRate_def fresh_oracles_def
          no_future_report_def)
  then show ?thesis
    using updatePrice_store_breaker fresh_oracles_distinct(1) by blast
qed

theorem aggregation_fallback_witness:
  "no_future_report example_oracle 10000 7
   \<and> fresh_oracles example_oracle 10000 7 = []
   \<and> internal_calculateAggregatedRate example_oracle 10000 7 = Inr 1000
   \<and> fresh_oracles single_oracle 1000 7 = [10]
   \<and> internal_calculateAggregatedRate
        single_oracle 1000 7 = Inr 1000
   \<and> card {a \<in> set (activeOracles single_oracle).
            is_fresh single_oracle 1000 7 a} = 1"
proof -
  from aggregation_falls_back_silently [of example_oracle 10000 7]
  have "internal_calculateAggregatedRate example_oracle 10000 7 = Inr 1000"
    by (simp add: example_no_future example_stale weighted_sum_def total_weight_def)
       (simp add: example_oracle_def)
  moreover
  from aggregation_falls_back_silently
         [of single_oracle 1000 7]
  have "internal_calculateAggregatedRate
          single_oracle 1000 7 = Inr 1000
        \<and> card {a \<in> set (activeOracles single_oracle).
            is_fresh single_oracle 1000 7 a} = 1"
    by (simp add: single_fresh weighted_sum_def total_weight_def MAX_UINT256_def)
  ultimately show ?thesis
    by (simp add: example_no_future example_stale single_fresh)
qed

text \<open>
  C5, as the claim states it, fails on the contract. The two oracles of the example weigh
  5000 each and report 1000 with confidence 100 and 1030 with confidence 50, both fresh at
  time 1000. The contract's rate is 1015, the average by the configured weights; the
  confidence-weighted average of the specification is 1010.
\<close>

theorem confidence_weighting_counterexample:
  "internal_calculateAggregatedRate example_oracle 1000 7 = Inr 1015
   \<and> spec_weighted_price example_oracle 1000 7 (\<lambda>a. 0) 0 = 1010"
  by (simp add: internal_calculateAggregatedRate_def spec_weighted_price_def
        spec_effective_confidence_def example_fresh)
     (simp add: example_oracle_def checked_sub_def checked_mul_def checked_add_def
        checked_div_def MAX_UINT256_def)

text \<open>
  C5, amended. When the aggregation of a pair reads no report from the future and its sums
  fit a \<open>uint256\<close>, at least \<open>minOracleCount\<close> entries of the array \<open>activeOracles\<close> have an
  active source with an active report no older than the staleness threshold, and the
  weights of those entries do not sum to zero, the aggregated rate is the sum of rate times
  weight over those entries divided (rounding down) by the sum of their weights, where the
  weight is the one the admin configured for the oracle source. An oracle that was
  deactivated and added again stands twice in the array and enters both sums twice; when no
  address stands twice in the array, the sums run over the registered oracles with such a
  report, each once. Neither the reported confidence, nor the age of a report within the
  staleness threshold, nor any failure count enters the rate.
\<close>

theorem aggregated_rate_is_weight_average:
  assumes "no_future_report s now pid"
      and "weighted_sum s pid (fresh_oracles s now pid) \<le> MAX_UINT256"
      and "total_weight s (fresh_oracles s now pid) \<le> MAX_UINT256"
      and "length (fresh_oracles s now pid) \<le> MAX_UINT256"
      and "total_weight s (fresh_oracles s now pid) > 0"
      and "length (fresh_oracles s now pid) \<ge> minOracleCount s"
  shows "internal_calculateAggregatedRate s now pid =
           Inr (weighted_sum s pid (fresh_oracles s now pid) div
                total_weight s (fresh_oracles s now pid))
       \<and> (distinct (activeOracles s) \<longrightarrow>
            internal_calculateAggregatedRate s now pid =
              Inr ((\<Sum>a \<in> {a \<in> set (activeOracles s). is_fresh s now pid a}.
                      rate (oraclePrices s pid a) * weight (oracleSources s a)) div
                   (\<Sum>a \<in> {a \<in> set (activeOracles s). is_fresh s now pid a}.
                      weight (oracleSources s a))))"
proof -
  from assms aggregate_loop_value [of s pid now "activeOracles s" 0 0 0]
  have avg: "internal_calculateAggregatedRate s now pid =
           Inr (weighted_sum s pid (fresh_oracles s now pid) div
                total_weight s (fresh_oracles s now pid))"
    by (simp add: internal_calculateAggregatedRate_def fresh_oracles_def no_future_report_def
          checked_div_def)
  show ?thesis
  proof (intro conjI impI)
    show "internal_calculateAggregatedRate s now pid =
           Inr (weighted_sum s pid (fresh_oracles s now pid) div
                total_weight s (fresh_oracles s now pid))"
      by (rule avg)
  next
    assume "distinct (activeOracles s)"
    from fresh_oracles_distinct(2,3) [OF this, where now = now and pid = pid] avg
    show "internal_calculateAggregatedRate s now pid =
              Inr ((\<Sum>a \<in> {a \<in> set (activeOracles s). is_fresh s now pid a}.
                      rate (oraclePrices s pid a) * weight (oracleSources s a)) div
                   (\<Sum>a \<in> {a \<in> set (activeOracles s). is_fresh s now pid a}.
                      weight (oracleSources s a)))"
      by simp
  qed
qed

theorem weight_average_witness:
  "no_future_report example_oracle 1000 7
   \<and> fresh_oracles example_oracle 1000 7 = [10, 11]
   \<and> weighted_sum example_oracle 7 [10, 11] = 10150000
   \<and> total_weight example_oracle [10, 11] = 10000
   \<and> internal_calculateAggregatedRate example_oracle 1000 7 = Inr 1015
   \<and> fresh_oracles readded_oracle 1000 7 = [10, 11, 10]
   \<and> internal_calculateAggregatedRate readded_oracle 1000 7 = Inr 1010"
proof -
  from aggregated_rate_is_weight_average [of example_oracle 1000 7]
  have "weighted_sum example_oracle 7 [10, 11] = 10150000
      \<and> total_weight example_oracle [10, 11] = 10000
      \<and> internal_calculateAggregatedRate example_oracle 1000 7 = Inr 1015"
    by (simp add: example_no_future example_fresh)
       (simp add: weighted_sum_def total_weight_def example_oracle_def MAX_UINT256_def)
  moreover
  from aggregated_rate_is_weight_average [of readded_oracle 1000 7]
  have "internal_calculateAggregatedRate readded_oracle 1000 7 = Inr 1010"
    by (simp add: readded_fresh MAX_UINT256_def)
  ultimately show ?thesis
    by (simp add: example_no_future example_fresh readded_fresh)
qed

section \<open>ComplianceEngine: the daily limit\<close>












section \<open>PayFlowCore: execution\<close>

lemma move_eq_Inr:
  "move l tok src dst v = Inr l' \<longleftrightarrow>
     src \<noteq> 0 \<and> dst \<noteq> 0 \<and> v \<le> balances l tok src \<and>
     l' = l\<lparr>balances := (balances l)
               (tok := ((balances l tok)(src := balances l tok src - v))
                  (dst := ((balances l tok)(src := balances l tok src - v)) dst + v)),
             transferLog := transferLog l @ [(tok, src, dst, v)]\<rparr>"
  by (auto simp: move_def Let_def)

lemma executions_append [simp]:
  "executions pid (xs @ ys) = executions pid xs + executions pid ys"
  by (simp add: executions_def)

lemma executions_simps [simp]:
  "executions pid [] = 0"
  "executions pid (PaymentExecuted q a b n m # evs) = (if q = pid then 1 else 0) + executions pid evs"
  "executions pid (PaymentCreated q a b c n r # evs) = executions pid evs"
  "executions pid (PaymentApproved q a n m # evs) = executions pid evs"
  "executions pid (PaymentCancelled q a # evs) = executions pid evs"
  "executions pid (CrossBorderSettlement q a b n m r # evs) = executions pid evs"
  by (simp_all add: executions_def)

lemma deduct_protocol_fee_Inr:
  assumes "deduct_protocol_fee s (payments s pid) = Inr (amt, l)"
  shows "amt = payment_amount (payments s pid) - protocol_fee s pid
       \<and> transferLog l = transferLog (ledger s) @
           (if protocolFeeBps s > 0
            then [(payment_token (payments s pid), core_address s, feeRecipient s,
                   protocol_fee s pid)]
            else [])"
proof (cases "protocolFeeBps s > 0")
  case False
  with assms show ?thesis by (simp add: deduct_protocol_fee_def protocol_fee_def)
next
  case True
  with assms show ?thesis
    unfolding deduct_protocol_fee_def
    by (auto simp: safeTransfer_def move_eq_Inr protocol_fee_def checked_mul_eq_Inr
          checked_div_eq_Inr checked_sub_eq_Inr elim!: bindE_InrE)
qed

lemma handle_cross_border_Inr:
  assumes "handle_cross_border s l pid payment amt = Inr (amt', evs)"
  shows "amt' = amt \<and> executions q evs = 0
       \<and> (targetToken payment \<noteq> payment_token payment \<longrightarrow>
            amt \<le> balances l (targetToken payment) (core_address s) \<and>
            evs = [CrossBorderSettlement pid (payment_token payment) (targetToken payment)
                     (payment_amount payment) amt (10 ^ 18)])"
  using assms
  by (auto simp: handle_cross_border_def internal_performFXConversion_def
        split: if_splits elim!: bindE_InrE)

lemma safeTransfer_log:
  "safeTransfer l tok this dst v = Inr l' \<Longrightarrow>
     transferLog l' = transferLog l @ [(tok, this, dst, v)]"
  by (simp add: safeTransfer_def move_eq_Inr)

lemma bindE_pair_InrE:
  assumes "bindE m (\<lambda>(a, b). f a b) = Inr y"
  obtains a b where "m = Inr (a, b)" and "f a b = Inr y"
  using assms by (cases m) auto

lemma bindE_quad_InrE:
  assumes "bindE m (\<lambda>(a, b, c, d). f a b c d) = Inr y"
  obtains a b c d where "m = Inr (a, b, c, d)" and "f a b c d = Inr y"
  using assms by (cases m) auto

lemma internal_executePayment_Inr:
  assumes "internal_executePayment s now pid = Inr s'"
  shows "payments s' = (payments s)
           (pid := (payments s pid)\<lparr>payment_status := EXECUTED, executedAt := now\<rparr>)
       \<and> transferLog (ledger s') = transferLog (ledger s) @ payout_transfers s pid
       \<and> (\<forall>q. executions q (payflow_events s') =
               executions q (payflow_events s) + (if q = pid then 1 else 0))
       \<and> totalPaymentsCreated s' = totalPaymentsCreated s"
proof -
  let ?p = "payments s pid"
  from assms obtain amt l1 amt' fx l2 st ex vol avg calls where
    fee: "deduct_protocol_fee s ?p = Inr (amt, l1)" and
    fx: "handle_cross_border s l1 pid ?p amt = Inr (amt', fx)" and
    pay: "safeTransfer l1 (targetToken ?p) (core_address s)
            (if useEscrow (conditions ?p) then escrowVault s else recipient ?p) amt' = Inr l2" and
    s': "s' = s\<lparr>payments := (payments s)
                  (pid := ?p\<lparr>payment_status := EXECUTED, executedAt := now\<rparr>),
                totalPaymentsExecuted := ex,
                totalVolumeProcessed := vol,
                averageSettlementTime := avg,
                payflow_events := payflow_events s @ fx @
                  [PaymentExecuted pid (sender ?p) (recipient ?p) amt' st],
                ledger := l2,
                auditCalls := calls\<rparr>"
    unfolding internal_executePayment_def Let_def
    by (elim bindE_quad_InrE bindE_pair_InrE bindE_InrE) auto
  from deduct_protocol_fee_Inr [OF fee] handle_cross_border_Inr [OF fx] safeTransfer_log [OF pay]
  show ?thesis
    unfolding s' by (simp add: payout_transfers_def payout_destination_def)
qed

lemma executePayment_Inr:
  assumes "executePayment s now p = Inr s'"
  shows "paymentId (payments s p) = p
       \<and> (payment_status (payments s p) = PENDING \<or> payment_status (payments s p) = APPROVED)
       \<and> internal_allConditionsMet now (payments s p)
       \<and> internal_executePayment s now p = Inr s'"
  using assms by (simp add: executePayment_def split: if_splits)

lemma approvePayment_Inr:
  assumes "approvePayment s now a p = Inr s'"
  shows "payment_status (payments s p) = PENDING
       \<and> (\<forall>q. q \<noteq> p \<longrightarrow> payments s' q = payments s q \<and>
              executions q (payflow_events s') = executions q (payflow_events s))
       \<and> totalPaymentsCreated s' = totalPaymentsCreated s"
proof -
  from assms have pending: "payment_status (payments s p) = PENDING"
    by (simp add: approvePayment_def split: if_splits)
  from assms obtain n where
    body: "(let payment = (payments s p)
                  \<lparr>approvalCount := n,
                   hasApproved := (hasApproved (payments s p))(a := True)\<rparr>;
                s1 = s\<lparr>payments := (payments s)(p := payment),
                       payflow_events := payflow_events s @
                         [PaymentApproved p a n (requiredApprovals (conditions payment))]\<rparr>
            in
            if internal_allConditionsMet now payment then internal_executePayment s1 now p
            else Inr s1) = Inr s'"
    by (auto simp: approvePayment_def split: if_splits elim!: bindE_InrE)
  show ?thesis
  proof (cases "internal_allConditionsMet now ((payments s p)
                  \<lparr>approvalCount := n, hasApproved := (hasApproved (payments s p))(a := True)\<rparr>)")
    case False
    with body pending show ?thesis by (auto simp: Let_def)
  next
    case True
    with body have
      "internal_executePayment
         (s\<lparr>payments := (payments s)(p := (payments s p)
                  \<lparr>approvalCount := n, hasApproved := (hasApproved (payments s p))(a := True)\<rparr>),
            payflow_events := payflow_events s @
              [PaymentApproved p a n (requiredApprovals (conditions (payments s p)))]\<rparr>)
         now p = Inr s'"
      by (simp add: Let_def)
    from internal_executePayment_Inr [OF this] pending show ?thesis by simp
  qed
qed

lemma cancelPayment_Inr:
  assumes "cancelPayment s a p = Inr s'"
  shows "(payment_status (payments s p) = CREATED \<or> payment_status (payments s p) = PENDING)
       \<and> (\<forall>q. q \<noteq> p \<longrightarrow> payments s' q = payments s q)
       \<and> (\<forall>q. executions q (payflow_events s') = executions q (payflow_events s))
       \<and> totalPaymentsCreated s' = totalPaymentsCreated s"
  using assms
  by (auto simp: cancelPayment_def split: if_splits elim!: bindE_InrE)

lemma createPayment_Inr:
  assumes "createPayment k s now a rcp tok amt conds refId m = Inr s'"
  shows "(\<forall>q. q \<noteq> k [a, rcp, tok, amt, now, totalPaymentsCreated s] \<longrightarrow>
             payments s' q = payments s q \<and>
             executions q (payflow_events s') = executions q (payflow_events s))
       \<and> totalPaymentsCreated s' = totalPaymentsCreated s + 1"
proof -
  let ?id = "k [a, rcp, tok, amt, now, totalPaymentsCreated s]"
  let ?payment = "(payments s ?id)
               \<lparr>paymentId := ?id, sender := a, recipient := rcp,
                payment_token := tok, payment_amount := amt, targetToken := tok,
                payment_status := CREATED, payment_createdAt := now,
                conditions := conds\<lparr>approvers := approvers conds @ approvers conds\<rparr>,
                referenceId := refId, memo := m\<rparr>"
  from assms obtain l n where
    n: "checked_add (totalPaymentsCreated s) 1 = Inr n" and
    body: "(let s1 = s\<lparr>payments := (payments s)(?id := ?payment),
                            paymentIds := paymentIds s @ [?id],
                            userPaymentsSent := (userPaymentsSent s)
                              (a := userPaymentsSent s a @ [?id]),
                            userPaymentsReceived := (userPaymentsReceived s)
                              (rcp := userPaymentsReceived s rcp @ [?id]),
                            totalPaymentsCreated := n,
                            payflow_events := payflow_events s @
                              [PaymentCreated ?id a rcp tok amt refId],
                            ledger := l\<rparr>
                 in
                 if internal_canAutoExecute ?payment then internal_executePayment s1 now ?id
                 else Inr (s1\<lparr>payments := (payments s1)
                              (?id := ?payment\<lparr>payment_status := PENDING\<rparr>)\<rparr>)) = Inr s'"
    unfolding createPayment_def Let_def
    by (auto split: if_splits elim!: bindE_InrE)
  from n have n': "n = totalPaymentsCreated s + 1" by (simp add: checked_add_eq_Inr)
  show ?thesis
  proof (cases "internal_canAutoExecute ?payment")
    case False
    with body n' show ?thesis by (auto simp: Let_def)
  next
    case True
    with body have
      "internal_executePayment
         (s\<lparr>payments := (payments s)(?id := ?payment),
                            paymentIds := paymentIds s @ [?id],
                            userPaymentsSent := (userPaymentsSent s)
                              (a := userPaymentsSent s a @ [?id]),
                            userPaymentsReceived := (userPaymentsReceived s)
                              (rcp := userPaymentsReceived s rcp @ [?id]),
                            totalPaymentsCreated := n,
                            payflow_events := payflow_events s @
                              [PaymentCreated ?id a rcp tok amt refId],
                            ledger := l\<rparr>) now ?id = Inr s'"
      by (simp add: Let_def)
    from internal_executePayment_Inr [OF this] n' show ?thesis by simp
  qed
qed

lemma createCrossBorderPayment_Inr:
  assumes "createCrossBorderPayment k s now a rcp tok amt tok' minAmt conds refId m = Inr s'"
  shows "(\<forall>q. q \<noteq> k [a, rcp, tok, tok', amt, now, totalPaymentsCreated s] \<longrightarrow>
             payments s' q = payments s q)
       \<and> (\<forall>q. executions q (payflow_events s') = executions q (payflow_events s))
       \<and> totalPaymentsCreated s' = totalPaymentsCreated s + 1"
  using assms unfolding createCrossBorderPayment_def Let_def
  by (auto split: if_splits elim!: bindE_InrE simp: checked_add_eq_Inr)

lemma payflow_exec_executed:
  assumes settled: "payment_status (payments s pid) = EXECUTED"
      and fresh: "\<forall>ws. ws \<noteq> [] \<and> totalPaymentsCreated s \<le> last ws \<longrightarrow> k ws \<noteq> pid"
  shows "payments (payflow_exec k tc s) pid = payments s pid
       \<and> executions pid (payflow_events (payflow_exec k tc s)) =
           executions pid (payflow_events s)
       \<and> totalPaymentsCreated s \<le> totalPaymentsCreated (payflow_exec k tc s)"
proof -
  obtain now c where tc: "tc = (now, c)" by (cases tc) auto
  show ?thesis
  proof (cases c)
    case (CreatePayment a rcp tok amt conds refId m)
    from fresh have "k [a, rcp, tok, amt, now, totalPaymentsCreated s] \<noteq> pid" by simp
    then show ?thesis using tc CreatePayment
      by (cases "createPayment k s now a rcp tok amt conds refId m")
         (auto dest!: createPayment_Inr)
  next
    case (CreateCrossBorderPayment a rcp tok amt tok' minAmt conds refId m)
    from fresh have "k [a, rcp, tok, tok', amt, now, totalPaymentsCreated s] \<noteq> pid" by simp
    then show ?thesis using tc CreateCrossBorderPayment
      by (cases "createCrossBorderPayment k s now a rcp tok amt tok' minAmt conds refId m")
         (auto dest!: createCrossBorderPayment_Inr)
  next
    case (ApprovePayment a p)
    show ?thesis
    proof (cases "approvePayment s now a p")
      case (Inl e)
      then show ?thesis using tc ApprovePayment by simp
    next
      case (Inr s')
      from approvePayment_Inr [OF Inr] settled have "pid \<noteq> p" by auto
      with approvePayment_Inr [OF Inr] show ?thesis using tc ApprovePayment Inr by simp
    qed
  next
    case (ExecutePayment p)
    show ?thesis
    proof (cases "executePayment s now p")
      case (Inl e)
      then show ?thesis using tc ExecutePayment by simp
    next
      case (Inr s')
      from executePayment_Inr [OF Inr] settled have ne: "pid \<noteq> p" by auto
      from executePayment_Inr [OF Inr] have "internal_executePayment s now p = Inr s'" by simp
      from internal_executePayment_Inr [OF this] ne show ?thesis
        using tc ExecutePayment Inr by simp
    qed
  next
    case (CancelPayment a p)
    show ?thesis
    proof (cases "cancelPayment s a p")
      case (Inl e)
      then show ?thesis using tc CancelPayment by simp
    next
      case (Inr s')
      from cancelPayment_Inr [OF Inr] settled have "pid \<noteq> p" by auto
      with cancelPayment_Inr [OF Inr] show ?thesis using tc CancelPayment Inr by simp
    qed
  qed (simp_all add: tc addSupportedToken_def setModules_def setProtocolFee_def
         setFeeRecipient_def pause_def unpause_def)
qed

lemma payflow_run_executed:
  assumes "payment_status (payments s pid) = EXECUTED"
      and "\<forall>ws. ws \<noteq> [] \<and> totalPaymentsCreated s \<le> last ws \<longrightarrow> k ws \<noteq> pid"
  shows "payments (payflow_run k cs s) pid = payments s pid
       \<and> executions pid (payflow_events (payflow_run k cs s)) =
           executions pid (payflow_events s)"
  using assms
proof (induction cs arbitrary: s)
  case Nil
  show ?case by simp
next
  case (Cons tc cs)
  from payflow_exec_executed [OF Cons.prems, of tc] have
    step: "payments (payflow_exec k tc s) pid = payments s pid"
      "executions pid (payflow_events (payflow_exec k tc s)) = executions pid (payflow_events s)"
      "totalPaymentsCreated s \<le> totalPaymentsCreated (payflow_exec k tc s)"
    by simp_all
  have "payment_status (payments (payflow_exec k tc s) pid) = EXECUTED"
    using step(1) Cons.prems(1) by simp
  moreover have "\<forall>ws. ws \<noteq> [] \<and> totalPaymentsCreated (payflow_exec k tc s) \<le> last ws
                   \<longrightarrow> k ws \<noteq> pid"
  proof (intro allI impI)
    fix ws
    assume "ws \<noteq> [] \<and> totalPaymentsCreated (payflow_exec k tc s) \<le> last ws"
    with step(3) have "ws \<noteq> [] \<and> totalPaymentsCreated s \<le> last ws" by simp
    with Cons.prems(2) show "k ws \<noteq> pid" by blast
  qed
  ultimately show ?case
    using Cons.IH [of "payflow_exec k tc s"] step by simp
qed

subsection \<open>The example payment\<close>

lemma example_execute: "executePayment example_core 1000 41 = Inr example_core_executed"
  by (simp add: executePayment_def internal_allConditionsMet_def internal_executePayment_def
        deduct_protocol_fee_def handle_cross_border_def internal_performFXConversion_def
        settlement_statistics_def log_to_audit_registry_def safeTransfer_def move_def
        example_core_def example_core_executed_def example_ledger_def
        zero_PaymentConditions_def checked_mul_def checked_div_def checked_sub_def
        checked_add_def MAX_UINT256_def Let_def fun_eq_iff)

lemma example_core_facts:
  "totalPaymentsCreated example_core = 42"
  "executions 41 (payflow_events example_core) = 0"
  "transferLog (ledger example_core) = []"
  "payout_transfers example_core 41 = [(100, 50, 2, 1), (101, 50, 61, 999)]"
  "targetToken (payments example_core 41) = 101"
  "payment_token (payments example_core 41) = 100"
  "payment_amount (payments example_core 41) = 1000"
  "targetAmount (payments example_core 41) = 1000"
  "protocol_fee example_core 41 = 1"
  "core_address example_core = 50"
  "balances (ledger example_core) 101 50 = 10000"
  "paymentId (payments example_core 41) = 41"
  "payment_status (payments example_core 41) = PENDING"
  "approvalCount (payments example_core 41) = 2"
  "conditions (payments example_core 41) =
     zero_PaymentConditions\<lparr>requiredSenderTier := INSTITUTIONAL,
       requiredRecipientTier := INSTITUTIONAL, requireSanctionsCheck := True,
       validFrom := 600, validUntil := 5000, requiredApprovals := 2\<rparr>"
  by (simp_all add: example_core_def example_ledger_def executions_def payout_transfers_def
        protocol_fee_def payout_destination_def zero_PaymentConditions_def)

lemma example_core_executed_facts:
  "paymentId (payments example_core_executed 41) = 41"
  "payment_status (payments example_core_executed 41) = EXECUTED"
  "executions 41 (payflow_events example_core_executed) = 1"
  "transferLog (ledger example_core_executed) = [(100, 50, 2, 1), (101, 50, 61, 999)]"
  by (simp_all add: example_core_executed_def example_core_def example_ledger_def
        executions_def)

lemma sanctioned_sender_rejected:
  "checkPaymentCompliance sanctioning_engine 1000 41 60 61 1000 True INSTITUTIONAL INSTITUTIONAL =
     Inr (sanctioning_engine
            \<lparr>totalChecks := 1, totalRejections := 1,
             compliance_events := [TransactionChecked 41 60 61 False ''Sender is sanctioned'']\<rparr>,
          \<lparr>passed = False, reason = ''Sender is sanctioned'', requiresTravelRule = False,
           requiresEnhancedDD = False, check_timestamp = 1000\<rparr>)"
  by (simp add: checkPaymentCompliance_def internal_reject_def sanctioning_engine_def
        zero_EntityProfile_def checked_add_def Let_def MAX_UINT256_def)

subsection \<open>Liquidity and the status after a call\<close>




subsection \<open>Fields that an execution never reads\<close>

lemma allConditionsMet_iff:
  "internal_allConditionsMet now p \<longleftrightarrow>
     (validFrom (conditions p) = 0 \<or> validFrom (conditions p) \<le> now) \<and>
     (validUntil (conditions p) = 0 \<or> now \<le> validUntil (conditions p)) \<and>
     requiredApprovals (conditions p) \<le> approvalCount p"
  by (auto simp: internal_allConditionsMet_def Let_def)

lemma executePayment_unread:
  assumes "executePayment s now pid = Inr s'"
  shows "executePayment (with_payment s pid (unread_by_execution t1 t2 b m x)) now pid =
           Inr (with_payment s' pid (unread_by_execution t1 t2 b m x))"
proof -
  let ?g = "unread_by_execution t1 t2 b m x"
  let ?p = "payments s pid"
  let ?t = "with_payment s pid ?g"
  from executePayment_Inr [OF assms] have
    guards: "paymentId ?p = pid"
      "payment_status ?p = PENDING \<or> payment_status ?p = APPROVED"
      "internal_allConditionsMet now ?p" and
    run: "internal_executePayment s now pid = Inr s'"
    by simp_all
  from run obtain amt l1 amt' fx l2 st ex vol avg calls where
    fee: "deduct_protocol_fee s ?p = Inr (amt, l1)" and
    fx: "handle_cross_border s l1 pid ?p amt = Inr (amt', fx)" and
    pay: "safeTransfer l1 (targetToken ?p) (core_address s)
            (if useEscrow (conditions ?p) then escrowVault s else recipient ?p) amt' = Inr l2" and
    stats: "settlement_statistics s now ?p = Inr (st, ex, vol, avg)" and
    audit: "log_to_audit_registry s pid ?p st = Inr calls" and
    s': "s' = s\<lparr>payments := (payments s)
                  (pid := ?p\<lparr>payment_status := EXECUTED, executedAt := now\<rparr>),
                totalPaymentsExecuted := ex,
                totalVolumeProcessed := vol,
                averageSettlementTime := avg,
                payflow_events := payflow_events s @ fx @
                  [PaymentExecuted pid (sender ?p) (recipient ?p) amt' st],
                ledger := l2,
                auditCalls := calls\<rparr>"
    unfolding internal_executePayment_def Let_def
    by (elim bindE_quad_InrE bindE_pair_InrE bindE_InrE) auto
  have "deduct_protocol_fee ?t (?g ?p) = deduct_protocol_fee s ?p"
    by (simp add: deduct_protocol_fee_def with_payment_def unread_by_execution_def)
  with fee have fee': "deduct_protocol_fee ?t (?g ?p) = Inr (amt, l1)" by simp
  have "handle_cross_border ?t l1 pid (?g ?p) amt = handle_cross_border s l1 pid ?p amt"
    by (simp add: handle_cross_border_def internal_performFXConversion_def with_payment_def
          unread_by_execution_def)
  with fx have fx': "handle_cross_border ?t l1 pid (?g ?p) amt = Inr (amt', fx)" by simp
  have pay': "safeTransfer l1 (targetToken (?g ?p)) (core_address ?t)
            (if useEscrow (conditions (?g ?p)) then escrowVault ?t else recipient (?g ?p)) amt'
            = Inr l2"
    using pay by (auto simp add: with_payment_def unread_by_execution_def)
  have "settlement_statistics ?t now (?g ?p) = settlement_statistics s now ?p"
    by (simp add: settlement_statistics_def with_payment_def unread_by_execution_def)
  with stats have stats': "settlement_statistics ?t now (?g ?p) = Inr (st, ex, vol, avg)"
    by simp
  have "log_to_audit_registry ?t pid (?g ?p) st = log_to_audit_registry s pid ?p st"
    by (simp add: log_to_audit_registry_def with_payment_def unread_by_execution_def)
  with audit have audit': "log_to_audit_registry ?t pid (?g ?p) st = Inr calls" by simp
  have p: "payments ?t pid = ?g ?p" by (simp add: with_payment_def)
  have "internal_executePayment ?t now pid = Inr (with_payment s' pid ?g)"
    apply (simp add: internal_executePayment_def Let_def p fee' fx' pay' stats' audit')
    apply (simp add: s' with_payment_def unread_by_execution_def)
    apply (rule PayFlowCore.equality)
                        apply simp_all
    apply (rule arg_cong [where f = "\<lambda>v. (payments s)(pid := v)"])
    apply (rule Payment.equality)
                   apply simp_all
    done
  moreover have "internal_allConditionsMet now (?g ?p) = internal_allConditionsMet now ?p"
    by (simp add: unread_by_execution_def allConditionsMet_iff)
  with guards have "paymentId (?g ?p) = pid"
      "payment_status (?g ?p) = PENDING \<or> payment_status (?g ?p) = APPROVED"
      "internal_allConditionsMet now (?g ?p)"
    by (simp_all add: unread_by_execution_def)
  ultimately show ?thesis
    by (simp add: executePayment_def p)
qed

lemma executePayment_compliance_unread:
  assumes "executePayment s now pid = Inr s'"
  shows "executePayment (with_payment s pid (with_compliance_conditions t1 t2 b)) now pid =
           Inr (with_payment s' pid (with_compliance_conditions t1 t2 b))"
proof -
  from executePayment_Inr [OF assms] have "internal_executePayment s now pid = Inr s'" by simp
  from internal_executePayment_Inr [OF this] have
    same: "maxSlippage (conditions (payments s' pid)) = maxSlippage (conditions (payments s pid))"
          "targetAmount (payments s' pid) = targetAmount (payments s pid)"
    by simp_all
  have "with_payment s pid (with_compliance_conditions t1 t2 b) =
        with_payment s pid (unread_by_execution t1 t2 b
          (maxSlippage (conditions (payments s pid))) (targetAmount (payments s pid)))"
    by (simp add: with_payment_def with_compliance_conditions_def unread_by_execution_def)
  moreover have "with_payment s' pid (with_compliance_conditions t1 t2 b) =
        with_payment s' pid (unread_by_execution t1 t2 b
          (maxSlippage (conditions (payments s pid))) (targetAmount (payments s pid)))"
    using same [symmetric]
    by (simp add: with_payment_def with_compliance_conditions_def unread_by_execution_def)
  ultimately show ?thesis
    using executePayment_unread [OF assms] by simp
qed


subsection \<open>A payment is executed at most once\<close>

text \<open>
  C1. \<open>executePayment\<close> reverts with ``Cannot execute'' on every existing payment whose
  status is \<open>EXECUTED\<close>, \<open>FAILED\<close> or \<open>CANCELLED\<close>. When it succeeds on a payment, the
  payment's status is \<open>EXECUTED\<close>, the token transfers made are exactly the protocol fee and
  the payout, and one \<open>PaymentExecuted\<close> event is emitted for it; after any further sequence of
  calls of the contract, at any times and by any senders, the status is still \<open>EXECUTED\<close>, the
  number of \<open>PaymentExecuted\<close> events of the payment is still one more than before the
  execution, and \<open>executePayment\<close> reverts. Payment identifiers are hashes whose last hashed
  word is the creation counter; the hypothesis on \<open>k\<close> says that no later creation hashes to
  the identifier of this payment.
\<close>

theorem executePayment_at_most_once:
  "(paymentId (payments t pid) = pid \<and>
    (payment_status (payments t pid) = EXECUTED \<or> payment_status (payments t pid) = FAILED \<or>
     payment_status (payments t pid) = CANCELLED) \<longrightarrow>
      executePayment t now' pid = Inl (Revert ''Cannot execute''))
   \<and> (executePayment s now pid = Inr s' \<and>
      (\<forall>ws. ws \<noteq> [] \<and> totalPaymentsCreated s \<le> last ws \<longrightarrow> k ws \<noteq> pid) \<longrightarrow>
        payment_status (payments s' pid) = EXECUTED \<and>
        transferLog (ledger s') = transferLog (ledger s) @ payout_transfers s pid \<and>
        executions pid (payflow_events s') = executions pid (payflow_events s) + 1 \<and>
        payment_status (payments (payflow_run k cs s') pid) = EXECUTED \<and>
        executions pid (payflow_events (payflow_run k cs s')) =
          executions pid (payflow_events s) + 1 \<and>
        executePayment (payflow_run k cs s') now' pid = Inl (Revert ''Cannot execute''))"
proof (intro conjI impI)
  assume "paymentId (payments t pid) = pid \<and>
    (payment_status (payments t pid) = EXECUTED \<or> payment_status (payments t pid) = FAILED \<or>
     payment_status (payments t pid) = CANCELLED)"
  then show "executePayment t now' pid = Inl (Revert ''Cannot execute'')"
    by (auto simp: executePayment_def)
next
  assume h: "executePayment s now pid = Inr s' \<and>
      (\<forall>ws. ws \<noteq> [] \<and> totalPaymentsCreated s \<le> last ws \<longrightarrow> k ws \<noteq> pid)"
  from h have ok: "executePayment s now pid = Inr s'" ..
  from executePayment_Inr [OF ok] have
    found: "paymentId (payments s pid) = pid" and
    run: "internal_executePayment s now pid = Inr s'"
    by simp_all
  note after = internal_executePayment_Inr [OF run]
  from after show
    executed: "payment_status (payments s' pid) = EXECUTED" and
    "transferLog (ledger s') = transferLog (ledger s) @ payout_transfers s pid" and
    count: "executions pid (payflow_events s') = executions pid (payflow_events s) + 1"
    by simp_all
  from h after have
    fresh: "\<forall>ws. ws \<noteq> [] \<and> totalPaymentsCreated s' \<le> last ws \<longrightarrow> k ws \<noteq> pid"
    by simp
  note later = payflow_run_executed [OF executed fresh, of cs]
  from later executed show "payment_status (payments (payflow_run k cs s') pid) = EXECUTED"
    by simp
  from later count show "executions pid (payflow_events (payflow_run k cs s')) =
          executions pid (payflow_events s) + 1"
    by simp
  from later after found
  show "executePayment (payflow_run k cs s') now' pid = Inl (Revert ''Cannot execute'')"
    by (simp add: executePayment_def)
qed

theorem executePayment_at_most_once_witness:
  "executePayment example_core 1000 41 = Inr example_core_executed
   \<and> payment_status (payments example_core_executed 41) = EXECUTED
   \<and> transferLog (ledger example_core_executed) = [(100, 50, 2, 1), (101, 50, 61, 999)]
   \<and> executions 41 (payflow_events example_core_executed) = 1
   \<and> executions 41 (payflow_events
        (payflow_run last [(1001, ExecutePayment 41), (1002, ApprovePayment 62 41),
                           (1003, CancelPayment 60 41), (1004, ExecutePayment 41)]
           example_core_executed)) = 1
   \<and> executePayment
        (payflow_run last [(1001, ExecutePayment 41), (1002, ApprovePayment 62 41),
                           (1003, CancelPayment 60 41), (1004, ExecutePayment 41)]
           example_core_executed) 1005 41 = Inl (Revert ''Cannot execute'')
   \<and> executePayment example_core_executed 1005 41 = Inl (Revert ''Cannot execute'')"
  using executePayment_at_most_once
          [where t = example_core_executed and pid = 41 and now' = 1005 and s = example_core
             and now = 1000 and s' = example_core_executed and k = last
             and cs = "[(1001, ExecutePayment 41), (1002, ApprovePayment 62 41),
                        (1003, CancelPayment 60 41), (1004, ExecutePayment 41)]"]
  by (simp add: example_execute example_core_facts example_core_executed_facts)

subsection \<open>What an execution checks\<close>

text \<open>
  C2, as the claim states it, fails: the example payment requires a sanctions check and
  institutional parties, the compliance engine rejects its sender as sanctioned, and
  \<open>executePayment\<close> executes it.
\<close>

theorem compliance_not_enforced_counterexample:
  "requireSanctionsCheck (conditions (payments example_core 41))
   \<and> requiredSenderTier (conditions (payments example_core 41)) = INSTITUTIONAL
   \<and> sender (payments example_core 41) = 60
   \<and> recipient (payments example_core 41) = 61
   \<and> isSanctioned (profiles sanctioning_engine 60)
   \<and> \<not> passed (snd (projr (checkPaymentCompliance sanctioning_engine 1000 41 60 61 1000 True
                              INSTITUTIONAL INSTITUTIONAL)))
   \<and> executePayment example_core 1000 41 = Inr example_core_executed
   \<and> payment_status (payments example_core_executed 41) = EXECUTED"
  by (simp add: example_execute sanctioned_sender_rejected example_core_facts
        example_core_executed_facts)
     (simp add: example_core_def sanctioning_engine_def)

text \<open>
  C2, amended. When \<open>executePayment\<close> succeeds, the payment exists, its status was \<open>PENDING\<close>
  or \<open>APPROVED\<close>, the time window is open (\<open>validFrom\<close> is zero or not after the block time,
  \<open>validUntil\<close> is zero or not before it) and the approvals received are at least
  \<open>requiredApprovals\<close>. The compliance conditions are not read: with any other required tiers
  and sanctions flag the call succeeds with the same result.
\<close>

theorem executePayment_checks_window_and_approvals_only:
  assumes "executePayment s now pid = Inr s'"
  shows "paymentId (payments s pid) = pid
       \<and> (payment_status (payments s pid) = PENDING \<or> payment_status (payments s pid) = APPROVED)
       \<and> (validFrom (conditions (payments s pid)) = 0 \<or>
          validFrom (conditions (payments s pid)) \<le> now)
       \<and> (validUntil (conditions (payments s pid)) = 0 \<or>
          now \<le> validUntil (conditions (payments s pid)))
       \<and> requiredApprovals (conditions (payments s pid)) \<le> approvalCount (payments s pid)
       \<and> (\<forall>t1 t2 b.
            executePayment (with_payment s pid (with_compliance_conditions t1 t2 b)) now pid =
              Inr (with_payment s' pid (with_compliance_conditions t1 t2 b)))"
  using executePayment_Inr [OF assms] executePayment_compliance_unread [OF assms]
  by (simp add: allConditionsMet_iff)

theorem executePayment_checks_witness:
  "executePayment example_core 1000 41 = Inr example_core_executed
   \<and> validFrom (conditions (payments example_core 41)) = 600
   \<and> validUntil (conditions (payments example_core 41)) = 5000
   \<and> requiredApprovals (conditions (payments example_core 41)) = 2
   \<and> approvalCount (payments example_core 41) = 2
   \<and> executePayment (with_payment example_core 41 (with_compliance_conditions NONE NONE False))
        1000 41 =
       Inr (with_payment example_core_executed 41 (with_compliance_conditions NONE NONE False))"
  using executePayment_checks_window_and_approvals_only
          [where s = example_core and now = 1000 and pid = 41 and s' = example_core_executed]
  by (simp add: example_execute example_core_facts)

subsection \<open>Cross-border execution\<close>




section \<open>SmartEscrow: settlement\<close>

lemma payouts_append [simp]:
  "payouts eid (xs @ ys) = payouts eid xs + payouts eid ys"
  by (simp add: payouts_def)

lemma payouts_simps [simp]:
  "payouts eid [] = 0"
  "payouts eid (EscrowCreated q p a b n # evs) = payouts eid evs"
  "payouts eid (EscrowApproved q a # evs) = payouts eid evs"
  "payouts eid (EscrowReleased q a n # evs) = (if q = eid then 1 else 0) + payouts eid evs"
  "payouts eid (EscrowRefunded q a n # evs) = (if q = eid then 1 else 0) + payouts eid evs"
  "payouts eid (EscrowDisputed q a w # evs) = payouts eid evs"
  "payouts eid (DisputeResolved q a b n # evs) = (if q = eid then 1 else 0) + payouts eid evs"
  by (simp_all add: payouts_def is_payout_def)

lemma settles_once_refl [simp]: "settles_once s s eid"
  by (simp add: settles_once_def)














subsection \<open>A settled escrow stays settled and is paid out once\<close>



end
